theory Spec2Isabelle
  imports Complex_Main
begin

section \<open>JavaScript values and string primitives\<close>

text \<open>
  The renderer process of LapBook is JavaScript. A JavaScript string is modelled as a
  \<open>string\<close> (a list of code units, here restricted to 8-bit characters), \<open>null\<close> and
  \<open>undefined\<close> as \<open>None\<close>. A value is \<^emph>\<open>truthy\<close> when it is neither \<open>null\<close>/\<open>undefined\<close>
  nor the empty string; \<open>a || d\<close> yields \<open>a\<close> when \<open>a\<close> is truthy and \<open>d\<close> otherwise.
\<close>

definition truthy :: "string option \<Rightarrow> bool" where
  "truthy v = (case v of None \<Rightarrow> False | Some s \<Rightarrow> s \<noteq> [])"

definition orElse :: "string option \<Rightarrow> string \<Rightarrow> string" where
  "orElse v d = (case v of None \<Rightarrow> d | Some s \<Rightarrow> if s = [] then d else s)"

definition orElseOpt :: "string option \<Rightarrow> string option \<Rightarrow> string option" where
  "orElseOpt v w = (if truthy v then v else w)"

text \<open>The character class \<open>[a-zA-Z0-9]\<close> of the identifier regular expressions.\<close>

definition isAlnum :: "char \<Rightarrow> bool" where
  "isAlnum c = (c \<in> set ''abcdefghijklmnopqrstuvwxyzABCDEFGHIJKLMNOPQRSTUVWXYZ0123456789'')"

text \<open>
  \<open>String.prototype.toLowerCase\<close>, on the ASCII letters. (Code units outside ASCII are
  left alone by the model; no such unit lower-cases to one of the letters of \<open>pdf\<close> or
  \<open>epub\<close>, and the slug replaces them by the separator before lower-casing.)
\<close>

definition toLowerChar :: "char \<Rightarrow> char" where
  "toLowerChar c =
     (case map_of (zip ''ABCDEFGHIJKLMNOPQRSTUVWXYZ'' ''abcdefghijklmnopqrstuvwxyz'') c of
        Some l \<Rightarrow> l
      | None \<Rightarrow> c)"

definition toLowerCase :: "string \<Rightarrow> string" where
  "toLowerCase s = map toLowerChar s"

text \<open>\<open>s.replace(/[^a-zA-Z0-9]/g, '-')\<close>: the global flag visits every match, and the
  pattern matches one code unit at a time.\<close>

definition replaceNonAlnum :: "string \<Rightarrow> string" where
  "replaceNonAlnum s = map (\<lambda>c. if isAlnum c then c else CHR ''-'') s"

text \<open>\<open>s.split(sep)\<close> for a non-empty separator; \<open>.pop()\<close> then takes the last piece.\<close>

function js_split :: "string \<Rightarrow> string \<Rightarrow> string list" where
  "js_split sep [] = [[]]"
| "js_split sep (c # cs) =
     (if sep \<noteq> [] \<and> take (length sep) (c # cs) = sep
      then [] # js_split sep (drop (length sep) (c # cs))
      else (case js_split sep cs of
              [] \<Rightarrow> [[c]]
            | w # ws \<Rightarrow> (c # w) # ws))"
  by pat_completeness auto
termination
  by (relation "measure (\<lambda>(sep, s). length s)") auto

definition pop :: "string list \<Rightarrow> string option" where
  "pop xs = (if xs = [] then None else Some (last xs))"

text \<open>\<open>filePath.split('.').pop().toLowerCase()\<close>, the expression both \<open>loadBook\<close> and
  \<open>addBookToLibrary\<close> classify a file by. \<open>split\<close> never returns an empty array, so
  \<open>pop\<close> always yields a string.\<close>

definition extension :: "string \<Rightarrow> string" where
  "extension filePath = toLowerCase (orElse (pop (js_split ''.'' filePath)) [])"

text \<open>Decimal rendering of a non-negative integer, as string concatenation with
  \<open>Date.now()\<close> produces it.\<close>

definition digitChar :: "nat \<Rightarrow> char" where
  "digitChar d = ''0123456789'' ! d"

function string_of_nat :: "nat \<Rightarrow> string" where
  "string_of_nat n =
     (if n < 10 then [digitChar n]
      else string_of_nat (n div 10) @ [digitChar (n mod 10)])"
  by pat_completeness auto
termination
  by (relation "measure (\<lambda>n. n)") auto

declare string_of_nat.simps [simp del]

text \<open>
  \<open>parseInt(s)\<close> without a radix: leading white space is skipped, an optional sign is
  read, a \<open>0x\<close>/\<open>0X\<close> prefix selects radix 16, and the longest prefix of digits of the
  radix is the value; with no digit the result is \<open>NaN\<close>, here \<open>None\<close>. The value is
  the mathematical integer (JavaScript rounds it to a double above \<open>2^53\<close>).
\<close>

definition isWhiteSpace :: "char \<Rightarrow> bool" where
  "isWhiteSpace c = (c \<in> set [CHR 0x09, CHR 0x0A, CHR 0x0B, CHR 0x0C, CHR 0x0D, CHR 0x20, CHR 0xA0])"

definition digitValue :: "char \<Rightarrow> nat option" where
  "digitValue c =
     map_of (zip ''0123456789abcdefABCDEF''
               [0, 1, 2, 3, 4, 5, 6, 7, 8, 9, 10, 11, 12, 13, 14, 15, 10, 11, 12, 13, 14, 15]) c"

definition isDigitOf :: "nat \<Rightarrow> char \<Rightarrow> bool" where
  "isDigitOf radix c = (case digitValue c of None \<Rightarrow> False | Some d \<Rightarrow> d < radix)"

definition digitsValue :: "nat \<Rightarrow> string \<Rightarrow> nat" where
  "digitsValue radix ds =
     foldl (\<lambda>acc c. acc * radix + (case digitValue c of None \<Rightarrow> 0 | Some d \<Rightarrow> d)) 0 ds"

definition parseInt :: "string \<Rightarrow> int option" where
  "parseInt s =
     (let s1 = dropWhile isWhiteSpace s;
          negative = (take 1 s1 = ''-'');
          s2 = (if take 1 s1 = ''-'' \<or> take 1 s1 = ''+'' then drop 1 s1 else s1);
          hex = (take 2 s2 = ''0x'' \<or> take 2 s2 = ''0X'');
          radix = (if hex then 16 else 10);
          s3 = (if hex then drop 2 s2 else s2);
          ds = takeWhile (isDigitOf radix) s3
      in if ds = [] then None
         else Some ((if negative then - 1 else 1) * int (digitsValue radix ds)))"

text \<open>
  JavaScript numbers are IEEE 754 doubles. A finite double is modelled by the real number
  it denotes, and an arithmetic operation by the exact operation followed by rounding to
  the nearest double, a tie going to the even significand. \<open>binade y\<close> is the exponent
  \<open>e\<close> with \<open>2^e \<le> |y| < 2^(e+1)\<close>, not below \<open>-1022\<close> (the subnormal range) and not
  above \<open>1023\<close>; the doubles of that binade are the multiples of \<open>2^(e-52)\<close>. (A result
  beyond the largest double is \<open>Infinity\<close> in JavaScript; the model covers finite
  results.)
\<close>

definition roundHalfEven :: "real \<Rightarrow> int" where
  "roundHalfEven z =
     (if z - of_int \<lfloor>z\<rfloor> < 1 / 2 then \<lfloor>z\<rfloor>
      else if 1 / 2 < z - of_int \<lfloor>z\<rfloor> then \<lfloor>z\<rfloor> + 1
      else if even \<lfloor>z\<rfloor> then \<lfloor>z\<rfloor> else \<lfloor>z\<rfloor> + 1)"

fun binadeFrom :: "nat \<Rightarrow> int \<Rightarrow> real \<Rightarrow> int" where
  "binadeFrom 0 e y = e"
| "binadeFrom (Suc k) e y = (if 2 powi e \<le> y then e else binadeFrom k (e - 1) y)"

definition binade :: "real \<Rightarrow> int" where
  "binade y = binadeFrom 2045 1023 \<bar>y\<bar>"

definition toDouble :: "real \<Rightarrow> real" where
  "toDouble y = of_int (roundHalfEven (y / 2 powi (binade y - 52))) * 2 powi (binade y - 52)"

text \<open>The product \<open>x * y\<close> of two doubles.\<close>

definition doubleTimes :: "real \<Rightarrow> real \<Rightarrow> real" where
  "doubleTimes x y = toDouble (x * y)"

text \<open>\<open>Math.round\<close>: the nearest integer, a tie going up; on a double this is exact.\<close>

definition Math_round :: "real \<Rightarrow> int" where
  "Math_round x = \<lfloor>x + 1 / 2\<rfloor>"

text \<open>\<open>array.find(p)\<close> returns a reference to the first element satisfying \<open>p\<close>; an
  assignment through that reference changes that element of the array in place.\<close>

fun updateFirst :: "('a \<Rightarrow> bool) \<Rightarrow> ('a \<Rightarrow> 'a) \<Rightarrow> 'a list \<Rightarrow> 'a list" where
  "updateFirst p f [] = []"
| "updateFirst p f (x # xs) = (if p x then f x # xs else x # updateFirst p f xs)"

section \<open>Settings (settings.js)\<close>

datatype jsval = JNull | JBool bool | JNum real | JStr string

type_synonym settingsObject = "string \<rightharpoonup> jsval"

record SettingsManager =
  defaults :: settingsObject
  settings :: settingsObject

definition defaultSettings :: settingsObject where
  "defaultSettings =
     [''fontSize'' \<mapsto> JNum 18,
      ''fontFamily'' \<mapsto> JStr ''serif'',
      ''lineSpacing'' \<mapsto> JNum (16 / 10),
      ''marginSize'' \<mapsto> JNum 50,
      ''theme'' \<mapsto> JStr ''sepia'',
      ''mouseWheelNav'' \<mapsto> JBool True,
      ''pageAnimation'' \<mapsto> JBool True,
      ''lastBookPath'' \<mapsto> JNull,
      ''lastLocation'' \<mapsto> JNull]"

text \<open>The constructor: \<open>this.defaults = {...}; this.settings = { ...this.defaults }\<close>.\<close>

definition newSettingsManager :: SettingsManager where
  "newSettingsManager = \<lparr>defaults = defaultSettings, settings = defaultSettings\<rparr>"

text \<open>
  What \<open>window.electronAPI.loadSettings()\<close> does: the promise rejects, or it resolves to
  the stored object, or to \<open>null\<close> (no file, or the main process failed to read or parse
  it).
\<close>

datatype loadSettingsOutcome = Rejects | Resolves "settingsObject option"

text \<open>
  \<open>load()\<close>: the object spread \<open>{ ...this.defaults, ...saved }\<close> copies the keys of
  \<open>defaults\<close> and then those of \<open>saved\<close>, a later key overwriting an earlier one; that is
  \<open>defaults ++ saved\<close>. The \<open>catch\<close> branch and the \<open>null\<close> case return
  \<open>this.settings\<close> as it stands. The result is the manager and the returned object.
\<close>

definition load :: "loadSettingsOutcome \<Rightarrow> SettingsManager \<Rightarrow> SettingsManager \<times> settingsObject" where
  "load outcome m =
     (case outcome of
        Rejects \<Rightarrow> (m, settings m)
      | Resolves None \<Rightarrow> (m, settings m)
      | Resolves (Some saved) \<Rightarrow>
          (m\<lparr>settings := defaults m ++ saved\<rparr>, defaults m ++ saved))"

definition setSetting :: "string \<Rightarrow> jsval \<Rightarrow> SettingsManager \<Rightarrow> SettingsManager" where
  "setSetting key v m = m\<lparr>settings := (settings m)(key \<mapsto> v)\<rparr>"

section \<open>Data model of the renderer (library, highlights, engines)\<close>

record LibraryEntry =
  entryId :: string
  path :: string
  title :: string
  author :: string
  fileType :: string
  coverPath :: "string option"
  addedDate :: string
  lastOpened :: "string option"
  lastPosition :: "string option"
  progress :: int

record Highlight =
  highlightId :: string
  cfiRange :: string
  highlightText :: string
  color :: string
  highlightNote :: string
  created :: string

text \<open>The package metadata epub.js reports, and an opened book: \<open>loadedMetadata\<close> is
  \<open>None\<close> when the promise \<open>book.loaded.metadata\<close> rejects.\<close>

record metadata =
  metaIdentifier :: "string option"
  metaTitle :: "string option"
  creator :: "string option"

record EpubBook =
  loadedMetadata :: "metadata option"

text \<open>The rendition, reduced to the target of its last successful \<open>display(target)\<close>
  (\<open>None\<close>: the start of the book).\<close>

record Rendition =
  displayed :: "string option"

text \<open>The \<open>relocated\<close> event of the EPUB engine. The percentage is a double, given by its
  real value; \<open>None\<close> stands for a missing percentage and for \<open>NaN\<close>.\<close>

record position =
  cfi :: string
  percentage :: "real option"

record location =
  start :: "position option"

subsection \<open>The PDF viewer (class PDFViewer)\<close>

record PDFViewer =
  pdfDoc :: bool
  currentPage :: int
  totalPages :: int
  pageRendering :: bool
  pageNumPending :: "int option"

definition newPDFViewer :: PDFViewer where
  "newPDFViewer =
     \<lparr>pdfDoc = False, currentPage = 1, totalPages = 0, pageRendering = False,
      pageNumPending = None\<rparr>"

text \<open>
  \<open>renderPage(pageNum)\<close>, run to completion: without a document nothing happens; while
  another render is in flight the page is only queued; otherwise the page becomes the
  current page, and a page queued meanwhile is rendered next. (Fetching and rastering
  the page are the PDF engine's; the current page is set before them.)
\<close>

definition renderPage :: "int \<Rightarrow> PDFViewer \<Rightarrow> PDFViewer" where
  "renderPage pageNum v =
     (if \<not> pdfDoc v then v
      else if pageRendering v then v\<lparr>pageNumPending := Some pageNum\<rparr>
      else (case pageNumPending v of
              None \<Rightarrow> v\<lparr>currentPage := pageNum\<rparr>
            | Some pending \<Rightarrow> v\<lparr>currentPage := pending, pageNumPending := None\<rparr>))"

text \<open>\<open>loadPDF(arrayBuffer)\<close> for a document of \<open>numPages\<close> pages.\<close>

definition PDFViewer_loadPDF :: "nat \<Rightarrow> PDFViewer \<Rightarrow> PDFViewer" where
  "PDFViewer_loadPDF numPages v =
     renderPage 1 (v\<lparr>pdfDoc := True, totalPages := int numPages, currentPage := 1\<rparr>)"

definition goToPage :: "int \<Rightarrow> PDFViewer \<Rightarrow> PDFViewer" where
  "goToPage pageNum v =
     (if pageNum \<ge> 1 \<and> pageNum \<le> totalPages v then renderPage pageNum v else v)"

subsection \<open>The collaborators\<close>

text \<open>
  What the collaborators of the renderer answer during one operation: the clock, the
  file dialog, the PDF engine on the file (\<open>pdfSupport\<close>: the PDF libraries load;
  \<open>pdfNumPages\<close>: \<open>None\<close> when reading or parsing the file fails; the \<open>Title\<close> and
  \<open>Author\<close> of the document information), the EPUB engine on the file (\<open>None\<close> when
  reading, parsing or displaying it fails), the cover path obtained for a new EPUB
  entry, the stored highlight set (\<open>None\<close> when loading rejects), whether a stored
  locator still resolves, and the message of the error a failing engine throws.
\<close>

record environment =
  now :: nat
  isoNow :: string
  dialogChoice :: "string option"
  pdfSupport :: bool
  pdfNumPages :: "nat option"
  pdfInfoTitle :: "string option"
  pdfInfoAuthor :: "string option"
  epubBook :: "EpubBook option"
  epubCover :: "string option"
  storedHighlights :: "Highlight list option"
  cfiResolves :: bool
  errorMessage :: string

datatype alert =
    FailedToLoadBook string
  | FailedToLoadPDF
  | FailedToLoadEPUB
  | FailedToAddBook

subsection \<open>The global variables of the renderer\<close>

text \<open>
  The globals of the renderer the modelled functions read and write, the pending
  \<open>window.librarySaveTimeout\<close> (the time its callback is due, \<open>None\<close> when no timer is
  pending), and what the renderer has sent out: the payload of every
  \<open>electronAPI.saveLibrary\<close>, \<open>saveHighlights\<close> and \<open>saveSettings\<close> call, oldest first,
  and the alerts shown.
\<close>

record renderer =
  book :: "EpubBook option"
  rendition :: "Rendition option"
  pdfViewer :: "PDFViewer option"
  currentFileType :: "string option"
  settingsManager :: SettingsManager
  highlights :: "Highlight list"
  bookIdentifier :: "string option"
  currentLocationCfi :: "string option"
  library :: "LibraryEntry list"
  currentBookPath :: "string option"
  editingBookId :: "string option"
  librarySaveTimeout :: "nat option"
  librarySaves :: "LibraryEntry list list"
  highlightSaves :: "(string option \<times> Highlight list) list"
  settingsSaves :: "settingsObject list"
  alerts :: "alert list"

definition initialRenderer :: renderer where
  "initialRenderer =
     \<lparr>book = None, rendition = None, pdfViewer = None, currentFileType = None,
      settingsManager = newSettingsManager, highlights = [], bookIdentifier = None,
      currentLocationCfi = None, library = [], currentBookPath = None,
      editingBookId = None, librarySaveTimeout = None, librarySaves = [],
      highlightSaves = [], settingsSaves = [], alerts = []\<rparr>"

definition saveLibrary :: "renderer \<Rightarrow> renderer" where
  "saveLibrary s = s\<lparr>librarySaves := librarySaves s @ [library s]\<rparr>"

definition saveHighlightsToFile :: "renderer \<Rightarrow> renderer" where
  "saveHighlightsToFile s =
     s\<lparr>highlightSaves := highlightSaves s @ [(bookIdentifier s, highlights s)]\<rparr>"

definition saveSettings :: "renderer \<Rightarrow> renderer" where
  "saveSettings s = s\<lparr>settingsSaves := settingsSaves s @ [settings (settingsManager s)]\<rparr>"

section \<open>Book identity\<close>

text \<open>The slug \<open>`${title}-${author}`.replace(/[^a-zA-Z0-9]/g, '-').toLowerCase()\<close>.\<close>

definition slug :: "string \<Rightarrow> string \<Rightarrow> string" where
  "slug t a = toLowerCase (replaceNonAlnum (t @ ''-'' @ a))"

text \<open>
  \<open>generateBookIdentifier()\<close> at clock \<open>t\<close>: the publisher identifier when truthy,
  otherwise the slug of title and creator (each \<open>'unknown'\<close> when missing); when the
  metadata cannot be read (no book, or the promise rejects) the \<open>catch\<close> branch makes
  \<open>'unknown-book-' + Date.now()\<close>.
\<close>

definition generateBookIdentifier :: "nat \<Rightarrow> renderer \<Rightarrow> renderer" where
  "generateBookIdentifier t s =
     (case book s of
        None \<Rightarrow> s\<lparr>bookIdentifier := Some (''unknown-book-'' @ string_of_nat t)\<rparr>
      | Some b \<Rightarrow>
          (case loadedMetadata b of
             None \<Rightarrow> s\<lparr>bookIdentifier := Some (''unknown-book-'' @ string_of_nat t)\<rparr>
           | Some m \<Rightarrow>
               if truthy (metaIdentifier m) then s\<lparr>bookIdentifier := metaIdentifier m\<rparr>
               else s\<lparr>bookIdentifier :=
                        Some (slug (orElse (metaTitle m) ''unknown'')
                                   (orElse (creator m) ''unknown''))\<rparr>))"

definition loadHighlights :: "environment \<Rightarrow> renderer \<Rightarrow> renderer" where
  "loadHighlights env s =
     (case storedHighlights env of
        None \<Rightarrow> s\<lparr>highlights := []\<rparr>
      | Some hs \<Rightarrow> s\<lparr>highlights := hs\<rparr>)"

section \<open>The library: adding a book\<close>

text \<open>
  The metadata a \<open>PDFViewer\<close> reports (\<open>getMetadata\<close>):
  \<open>title: metadata.info?.Title || 'Untitled PDF'\<close> and
  \<open>author: metadata.info?.Author || 'Unknown'\<close>.
\<close>

definition pdfMetadataTitle :: "environment \<Rightarrow> string" where
  "pdfMetadataTitle env = orElse (pdfInfoTitle env) ''Untitled PDF''"

definition pdfMetadataAuthor :: "environment \<Rightarrow> string" where
  "pdfMetadataAuthor env = orElse (pdfInfoAuthor env) ''Unknown''"

text \<open>
  The part of \<open>addBookToLibrary\<close> between the duplicate check and \<open>library.unshift\<close>:
  the file is read and parsed by a temporary engine, and the entry is built from its
  metadata. \<open>None\<close> stands for an exception (the file cannot be read or parsed), which
  the function's \<open>catch\<close> turns into an alert. The PDF branch is taken when
  \<open>fileType === 'pdf'\<close>, the EPUB branch otherwise. The separator of the PDF title
  fallback, the JavaScript literal \<open>'\\\\'\<close>, is two backslashes.
\<close>

definition newLibraryEntry ::
  "environment \<Rightarrow> string \<Rightarrow> string option \<Rightarrow> string option \<Rightarrow> string \<Rightarrow> LibraryEntry option" where
  "newLibraryEntry env filePath titleArg authorArg fType =
     (if fType = ''pdf'' then
        (case pdfNumPages env of
           None \<Rightarrow> None
         | Some n \<Rightarrow>
             (let t = orElse titleArg
                        (orElse (Some (pdfMetadataTitle env))
                           (orElse (pop (js_split [CHR 0x5C, CHR 0x5C] filePath)) []));
                  a = orElse authorArg (orElse (Some (pdfMetadataAuthor env)) ''Unknown'')
              in Some \<lparr>entryId = slug t a @ ''-'' @ string_of_nat (now env),
                       path = filePath, title = t, author = a, fileType = fType,
                       coverPath = None, addedDate = isoNow env, lastOpened = None,
                       lastPosition = None, progress = 0\<rparr>))
      else
        (case epubBook env of
           None \<Rightarrow> None
         | Some b \<Rightarrow>
             (case loadedMetadata b of
                None \<Rightarrow> None
              | Some m \<Rightarrow>
                  (let t = orElse titleArg (orElse (metaTitle m) ''Unknown Title'');
                       a = orElse authorArg (orElse (creator m) ''Unknown Author'')
                   in Some \<lparr>entryId = orElse (metaIdentifier m)
                                          (slug t a @ ''-'' @ string_of_nat (now env)),
                            path = filePath, title = t, author = a, fileType = fType,
                            coverPath = epubCover env, addedDate = isoNow env,
                            lastOpened = None, lastPosition = None, progress = 0\<rparr>))))"

text \<open>
  \<open>addBookToLibrary(filePathArg, titleArg, authorArg, fileTypeArg)\<close> is an \<open>async\<close>
  function: between its duplicate check (\<open>library.find\<close>) and its insertion
  (\<open>library.unshift\<close>) it awaits the file read, the metadata and the cover, and other
  handlers of the renderer run while it waits. It is therefore modelled in two steps.

  \<open>addBookToLibrary_check\<close> is the synchronous stretch that ends with the duplicate
  check; it reads the state and does not change it. The file dialog is asked when no path
  is given; the file type, when not given, is \<open>extension === 'pdf' ? 'pdf' : 'epub'\<close>.
  The function either returns (\<open>Returns\<close>, with the path it goes on to open: \<open>Some\<close> only
  when it was called without a path, from the Add Book button) or is left awaiting with
  what it will insert (\<open>Awaits\<close>).
\<close>

record pendingAdd =
  addFilePath :: string
  addTitleArg :: "string option"
  addAuthorArg :: "string option"
  addFileType :: string
  addOpens :: "string option"

datatype addOutcome = Returns "string option" | Awaits pendingAdd

definition addBookToLibrary_check ::
  "environment \<Rightarrow> string option \<Rightarrow> string option \<Rightarrow> string option \<Rightarrow> string option \<Rightarrow>
     renderer \<Rightarrow> addOutcome" where
  "addBookToLibrary_check env filePathArg titleArg authorArg fileTypeArg s =
     (case orElseOpt filePathArg (dialogChoice env) of
        None \<Rightarrow> Returns None
      | Some filePath \<Rightarrow>
          if filePath = [] then Returns None
          else
            (let fType = (if truthy fileTypeArg then orElse fileTypeArg []
                          else if extension filePath = ''pdf'' then ''pdf'' else ''epub'');
                 opens = (if truthy filePathArg then None else Some filePath)
             in case find (\<lambda>b. path b = filePath) (library s) of
                  Some existingBook \<Rightarrow> Returns opens
                | None \<Rightarrow>
                    Awaits \<lparr>addFilePath = filePath, addTitleArg = titleArg,
                            addAuthorArg = authorArg, addFileType = fType,
                            addOpens = opens\<rparr>))"

text \<open>
  \<open>addBookToLibrary_resume\<close> is the stretch after the awaits, run on the state the
  renderer is in by then: the entry built from the metadata goes to the head of the
  library (there is no second duplicate check), and the library is saved; an exception
  of the read or the parse is caught and shown as an alert.
\<close>

definition addBookToLibrary_resume ::
  "environment \<Rightarrow> pendingAdd \<Rightarrow> renderer \<Rightarrow> renderer \<times> string option" where
  "addBookToLibrary_resume env p s =
     (case newLibraryEntry env (addFilePath p) (addTitleArg p) (addAuthorArg p) (addFileType p) of
        None \<Rightarrow> (s\<lparr>alerts := alerts s @ [FailedToAddBook]\<rparr>, None)
      | Some libraryEntry \<Rightarrow>
          (saveLibrary (s\<lparr>library := libraryEntry # library s\<rparr>), addOpens p))"

text \<open>
  \<open>addBookToLibrary_body\<close> is the function up to its final \<open>loadBook\<close> when no other
  handler runs between the two steps; the result is the new state and the path the
  function goes on to open.
\<close>

definition addBookToLibrary_body ::
  "environment \<Rightarrow> string option \<Rightarrow> string option \<Rightarrow> string option \<Rightarrow> string option \<Rightarrow>
     renderer \<Rightarrow> renderer \<times> string option" where
  "addBookToLibrary_body env filePathArg titleArg authorArg fileTypeArg s =
     (case addBookToLibrary_check env filePathArg titleArg authorArg fileTypeArg s of
        Returns opens \<Rightarrow> (s, opens)
      | Awaits p \<Rightarrow> addBookToLibrary_resume env p s)"

section \<open>Opening a book\<close>

text \<open>
  \<open>loadPDF(filePath)\<close>; the flag of the result says whether the function rethrew. The
  previous rendition is destroyed; when the PDF libraries cannot be loaded, or the file
  cannot be read or parsed, the viewer is destroyed, an alert is shown and the error is
  rethrown. Otherwise the new viewer shows page 1 and the book is added to the library
  with the path, so that \<open>addBookToLibrary\<close> does not open it again.
\<close>

definition loadPDF :: "environment \<Rightarrow> string \<Rightarrow> renderer \<Rightarrow> renderer \<times> bool" where
  "loadPDF env filePath s =
     (let s1 = s\<lparr>rendition := None\<rparr> in
      if \<not> pdfSupport env
      then (s1\<lparr>pdfViewer := None, alerts := alerts s1 @ [FailedToLoadPDF]\<rparr>, True)
      else
        (case pdfNumPages env of
           None \<Rightarrow>
             (s1\<lparr>pdfViewer := None, currentFileType := Some ''pdf'',
                 alerts := alerts s1 @ [FailedToLoadPDF]\<rparr>, True)
         | Some n \<Rightarrow>
             (let s2 = s1\<lparr>pdfViewer := Some (PDFViewer_loadPDF n newPDFViewer),
                           currentFileType := Some ''pdf''\<rparr>
              in (fst (addBookToLibrary_body env (Some filePath)
                         (Some (orElse (Some (pdfMetadataTitle env)) ''Untitled PDF''))
                         (Some (orElse (Some (pdfMetadataAuthor env)) ''Unknown''))
                         (Some ''pdf'') s2),
                  False))))"

text \<open>
  \<open>loadEPUB(filePath)\<close>: the previous engines are released; when the file cannot be
  read, parsed or displayed an alert is shown and book and rendition are released (the
  error is not rethrown). Otherwise the identifier is generated, the highlights are
  loaded and the path is saved in the settings.
\<close>

definition loadEPUB :: "environment \<Rightarrow> string \<Rightarrow> renderer \<Rightarrow> renderer" where
  "loadEPUB env filePath s =
     (let s1 = s\<lparr>pdfViewer := None, currentFileType := Some ''epub'',
                   rendition := None, book := None\<rparr>
      in case epubBook env of
           None \<Rightarrow> s1\<lparr>alerts := alerts s1 @ [FailedToLoadEPUB]\<rparr>
         | Some b \<Rightarrow>
             (let s2 = s1\<lparr>book := Some b, rendition := Some \<lparr>displayed = None\<rparr>\<rparr>;
                  s3 = generateBookIdentifier (now env) s2;
                  s4 = loadHighlights env s3;
                  s5 = s4\<lparr>settingsManager :=
                            setSetting ''lastBookPath'' (JStr filePath) (settingsManager s4)\<rparr>
              in saveSettings s5))"

text \<open>
  \<open>loadBook(filePath)\<close>: the path becomes the current book path, and the lower-cased
  extension selects the engine; any other extension throws \<open>Unsupported file format\<close>,
  which, like an error rethrown by \<open>loadPDF\<close>, is caught and shown as an alert.
\<close>

definition loadBook :: "environment \<Rightarrow> string \<Rightarrow> renderer \<Rightarrow> renderer" where
  "loadBook env filePath s =
     (let s1 = s\<lparr>currentBookPath := Some filePath\<rparr> in
      if extension filePath = ''pdf'' then
        (case loadPDF env filePath s1 of
           (s2, threw) \<Rightarrow>
             if threw then s2\<lparr>alerts := alerts s2 @ [FailedToLoadBook (errorMessage env)]\<rparr>
             else s2)
      else if extension filePath = ''epub'' then loadEPUB env filePath s1
      else s1\<lparr>alerts := alerts s1 @
              [FailedToLoadBook ''Unsupported file format. Only EPUB and PDF files are supported.'']\<rparr>)"

text \<open>\<open>addBookToLibrary\<close> as a whole, run without another handler in between: the
  body, then \<open>loadBook\<close> when the function was called without a path.\<close>

definition addBookToLibrary ::
  "environment \<Rightarrow> string option \<Rightarrow> string option \<Rightarrow> string option \<Rightarrow> string option \<Rightarrow>
     renderer \<Rightarrow> renderer" where
  "addBookToLibrary env filePathArg titleArg authorArg fileTypeArg s =
     (case addBookToLibrary_body env filePathArg titleArg authorArg fileTypeArg s of
        (s1, None) \<Rightarrow> s1
      | (s1, Some filePath) \<Rightarrow> loadBook env filePath s1)"

text \<open>
  \<open>openBookFromLibrary(bookPath)\<close>: the entry of the path, when there is one, gets its
  \<open>lastOpened\<close> and the library is saved; the book is loaded; then the last position is
  replayed: for an EPUB entry with an open rendition by \<open>rendition.display\<close> (a failure
  is caught and leaves the rendition where it is), for a PDF entry with an open viewer
  by \<open>goToPage(parseInt(lastPosition))\<close> when the number is greater than 0.
\<close>

definition openBookFromLibrary :: "environment \<Rightarrow> string \<Rightarrow> renderer \<Rightarrow> renderer" where
  "openBookFromLibrary env bookPath s =
     (let found = find (\<lambda>b. path b = bookPath) (library s);
          s1 = (case found of
                  None \<Rightarrow> s
                | Some b \<Rightarrow>
                    saveLibrary (s\<lparr>library :=
                      updateFirst (\<lambda>b. path b = bookPath)
                        (\<lambda>b. b\<lparr>lastOpened := Some (isoNow env)\<rparr>) (library s)\<rparr>));
          s2 = loadBook env bookPath s1
      in case found of
           None \<Rightarrow> s2
         | Some b \<Rightarrow>
             if truthy (lastPosition b) \<and> fileType b = ''epub'' \<and> rendition s2 \<noteq> None then
               (if cfiResolves env then s2\<lparr>rendition := Some \<lparr>displayed = lastPosition b\<rparr>\<rparr>
                else s2)
             else if truthy (lastPosition b) \<and> fileType b = ''pdf'' then
               (case pdfViewer s2 of
                  None \<Rightarrow> s2
                | Some v \<Rightarrow>
                    (case parseInt (orElse (lastPosition b) []) of
                       None \<Rightarrow> s2
                     | Some pageNum \<Rightarrow>
                         if pageNum > 0 then s2\<lparr>pdfViewer := Some (goToPage pageNum v)\<rparr>
                         else s2))
             else s2)"

section \<open>Recording the reading position\<close>

text \<open>
  \<open>onLocationChange(location)\<close>, run at time \<open>t\<close> (in milliseconds): the locator is
  kept and written to the settings at once; when the current book is in the library,
  the first entry of its path gets the locator and
  \<open>Math.round((location.start.percentage || 0) * 100)\<close> (a double product), the pending save timer is
  cleared and a new one is set, due 2000 ms later.
\<close>

definition onLocationChange :: "nat \<Rightarrow> location option \<Rightarrow> renderer \<Rightarrow> renderer" where
  "onLocationChange t loc s =
     (case loc of
        None \<Rightarrow> s
      | Some l \<Rightarrow>
          (case start l of
             None \<Rightarrow> s
           | Some st \<Rightarrow>
               (let s1 = s\<lparr>currentLocationCfi := Some (cfi st),
                             settingsManager :=
                               setSetting ''lastLocation'' (JStr (cfi st)) (settingsManager s)\<rparr>;
                    s2 = saveSettings s1
                in case currentBookPath s2 of
                     None \<Rightarrow> s2
                   | Some p \<Rightarrow>
                       if p = [] then s2
                       else
                         (case find (\<lambda>b. path b = p) (library s2) of
                            None \<Rightarrow> s2
                          | Some b \<Rightarrow>
                              s2\<lparr>library :=
                                   updateFirst (\<lambda>b. path b = p)
                                     (\<lambda>b. b\<lparr>lastPosition := Some (cfi st),
                                            progress := Math_round
                                              (doubleTimes
                                                 (case percentage st of None \<Rightarrow> 0 | Some x \<Rightarrow> x)
                                                 100)\<rparr>)
                                     (library s2),
                                 librarySaveTimeout := Some (t + 2000)\<rparr>))))"

text \<open>
  The timer of the platform: the callback of a pending \<open>setTimeout(f, 2000)\<close> runs once,
  not before its delay has elapsed, unless \<open>clearTimeout\<close> cancelled it. \<open>timersFire t\<close>
  is the event loop reaching time \<open>t\<close>: a pending save timer that is due runs
  \<open>saveLibrary()\<close>. \<open>runEvents\<close> delivers \<open>relocated\<close> events, each with the time it
  arrives at, letting a due timer fire before the event is handled.
\<close>

definition timersFire :: "nat \<Rightarrow> renderer \<Rightarrow> renderer" where
  "timersFire t s =
     (case librarySaveTimeout s of
        None \<Rightarrow> s
      | Some due \<Rightarrow> if due \<le> t then saveLibrary (s\<lparr>librarySaveTimeout := None\<rparr>) else s)"

fun runEvents :: "renderer \<Rightarrow> (nat \<times> location option) list \<Rightarrow> renderer" where
  "runEvents s [] = s"
| "runEvents s ((t, loc) # es) = runEvents (onLocationChange t loc (timersFire t s)) es"

text \<open>
  A burst of \<open>relocated\<close> events inside the quiet window: every event carries a start
  position, the events are in the order of their arrival times, and each arrives less than
  2000 ms after the one before.
\<close>

definition carriesStart :: "location option \<Rightarrow> bool" where
  "carriesStart loc = (case loc of None \<Rightarrow> False | Some l \<Rightarrow> start l \<noteq> None)"

fun quietBurst :: "(nat \<times> location option) list \<Rightarrow> bool" where
  "quietBurst [] = True"
| "quietBurst [(t, loc)] = carriesStart loc"
| "quietBurst ((t, loc) # (t', loc') # es) =
     (carriesStart loc \<and> t \<le> t' \<and> t' < t + 2000 \<and> quietBurst ((t', loc') # es))"

section \<open>Highlights and metadata edits\<close>

text \<open>
  \<open>deleteHighlight(highlightId)\<close>; \<open>confirmed\<close> is the user's answer to
  \<open>confirm('Delete this highlight?')\<close>. Declined, the function returns at once;
  confirmed, the records with the id are filtered out and the whole set is saved.
\<close>

definition deleteHighlight :: "bool \<Rightarrow> string \<Rightarrow> renderer \<Rightarrow> renderer" where
  "deleteHighlight confirmed hId s =
     (if \<not> confirmed then s
      else saveHighlightsToFile
             (s\<lparr>highlights := filter (\<lambda>h. highlightId h \<noteq> hId) (highlights s)\<rparr>))"

text \<open>
  \<open>saveEditedBook()\<close> with the values of the two input fields: nothing happens when no
  edit is open or the entry is gone; otherwise the first entry with the id gets
  \<open>value || 'Unknown Title'\<close> and \<open>value || 'Unknown Author'\<close>, and the library is saved.
\<close>

definition saveEditedBook :: "string \<Rightarrow> string \<Rightarrow> renderer \<Rightarrow> renderer" where
  "saveEditedBook titleValue authorValue s =
     (case editingBookId s of
        None \<Rightarrow> s
      | Some bId \<Rightarrow>
          if bId = [] then s
          else
            (case find (\<lambda>b. entryId b = bId) (library s) of
               None \<Rightarrow> s
             | Some b \<Rightarrow>
                 (saveLibrary
                    (s\<lparr>library :=
                         updateFirst (\<lambda>b. entryId b = bId)
                           (\<lambda>b. b\<lparr>title := orElse (Some titleValue) ''Unknown Title'',
                                  author := orElse (Some authorValue) ''Unknown Author''\<rparr>)
                           (library s)\<rparr>))\<lparr>editingBookId := None\<rparr>))"

section \<open>Auxiliary facts\<close>

lemma find_updateFirst:
  "find p xs = Some b \<Longrightarrow> p (f b) \<Longrightarrow> find p (updateFirst p f xs) = Some (f b)"
  by (induction xs) (auto split: if_splits)

lemma js_split_nonempty: "js_split sep s \<noteq> []"
  by (induction sep s rule: js_split.induct) (auto split: list.splits)

lemma js_split_char_Cons:
  "js_split [d] (c # cs) =
     (if c = d then [] # js_split [d] cs
      else (case js_split [d] cs of [] \<Rightarrow> [[c]] | w # ws \<Rightarrow> (c # w) # ws))"
  by simp

lemma js_split_no_separator: "d \<notin> set s \<Longrightarrow> js_split [d] s = [s]"
  by (induction s) (auto)

lemma js_split_append:
  "js_split [d] (x @ d # y) = js_split [d] x @ js_split [d] y"
proof (induction x)
  case Nil
  show ?case by simp
next
  case (Cons c x)
  obtain w ws where sx: "js_split [d] x = w # ws"
    using js_split_nonempty [of "[d]" x] by (cases "js_split [d] x") auto
  show ?case
    using Cons sx by (simp del: js_split.simps add: js_split_char_Cons)
qed

lemma extension_suffix:
  assumes "CHR ''.'' \<notin> set ext"
  shows "extension (base @ ''.'' @ ext) = toLowerCase ext"
proof -
  have "js_split ''.'' (base @ ''.'' @ ext) = js_split ''.'' base @ [ext]"
    using js_split_append [of "CHR ''.''" base ext] js_split_no_separator [OF assms]
    by simp
  then show ?thesis
    by (simp add: extension_def pop_def orElse_def toLowerCase_def)
qed

lemma orElse_Some: "orElse (Some v) d = (if v = [] then d else v)"
  by (simp add: orElse_def)

subsection \<open>Rounding to a double\<close>





lemma binadeFrom_eq:
  "2 powi m \<le> y \<Longrightarrow> y < 2 powi (m + 1) \<Longrightarrow> m \<le> e \<Longrightarrow> nat (e - m) \<le> k \<Longrightarrow>
     binadeFrom k e y = m"
proof (induction k arbitrary: e)
  case 0
  then show ?case by simp
next
  case (Suc k)
  show ?case
  proof (cases "e = m")
    case True
    then show ?thesis using Suc.prems(1) by simp
  next
    case False
    then have lt: "m + 1 \<le> e" using Suc.prems(3) by simp
    have "(2::real) powi (m + 1) \<le> 2 powi e"
      by (rule power_int_increasing [OF lt]) simp
    then have "\<not> 2 powi e \<le> y" using Suc.prems(2) by linarith
    moreover have "binadeFrom k (e - 1) y = m"
      using Suc.prems lt by (intro Suc.IH) auto
    ultimately show ?thesis by simp
  qed
qed

lemma binade_eq:
  "2 powi m \<le> \<bar>y\<bar> \<Longrightarrow> \<bar>y\<bar> < 2 powi (m + 1) \<Longrightarrow> - 1022 \<le> m \<Longrightarrow> m \<le> 1023 \<Longrightarrow> binade y = m"
  unfolding binade_def by (rule binadeFrom_eq) auto



lemma toDouble_eq:
  "2 powi m \<le> \<bar>y\<bar> \<Longrightarrow> \<bar>y\<bar> < 2 powi (m + 1) \<Longrightarrow> - 1022 \<le> m \<Longrightarrow> m \<le> 1023 \<Longrightarrow>
     toDouble y = of_int (roundHalfEven (y / 2 powi (m - 52))) * 2 powi (m - 52)"
  by (simp add: toDouble_def binade_eq)


section \<open>Settings: merge on load\<close>

text \<open>
  C8. Loading the settings into a freshly constructed manager yields, and stores, the
  merge of the defaults with the stored object: a key the stored object defines takes
  the stored value (whether or not the defaults define it, so keys only in the stored
  object are retained), a key only the defaults define takes the default value, and no
  other key appears. When the load fails (the call rejects, or resolves to \<open>null\<close>) the
  defaults are returned; \<open>load\<close> returns a value in every case, no exception escapes.
\<close>

theorem load_merges_defaults_with_stored:
  "(\<forall>k v. saved k = Some v \<longrightarrow>
      snd (load (Resolves (Some saved)) newSettingsManager) k = Some v)
   \<and> (\<forall>k. saved k = None \<longrightarrow>
      snd (load (Resolves (Some saved)) newSettingsManager) k = defaultSettings k)
   \<and> dom (snd (load (Resolves (Some saved)) newSettingsManager)) = dom defaultSettings \<union> dom saved
   \<and> settings (fst (load (Resolves (Some saved)) newSettingsManager))
       = snd (load (Resolves (Some saved)) newSettingsManager)
   \<and> snd (load Rejects newSettingsManager) = defaultSettings
   \<and> snd (load (Resolves None) newSettingsManager) = defaultSettings"
proof -
  have merged: "snd (load (Resolves (Some saved)) newSettingsManager) = defaultSettings ++ saved"
    by (simp add: load_def newSettingsManager_def)
  have stored_wins: "\<forall>k v. saved k = Some v \<longrightarrow> (defaultSettings ++ saved) k = Some v"
    by (simp add: map_add_def)
  have default_else: "\<forall>k. saved k = None \<longrightarrow> (defaultSettings ++ saved) k = defaultSettings k"
    by (simp add: map_add_def)
  have keys: "dom (defaultSettings ++ saved) = dom defaultSettings \<union> dom saved"
    by auto
  have kept: "settings (fst (load (Resolves (Some saved)) newSettingsManager)) = defaultSettings ++ saved"
    by (simp add: load_def newSettingsManager_def)
  have failed: "snd (load Rejects newSettingsManager) = defaultSettings"
    "snd (load (Resolves None) newSettingsManager) = defaultSettings"
    by (simp_all add: load_def newSettingsManager_def)
  show ?thesis
    using merged stored_wins default_else keys kept failed by simp
qed

theorem load_merges_defaults_with_stored_witness:
  "snd (load (Resolves (Some [''theme'' \<mapsto> JStr ''dark'', ''legacyKey'' \<mapsto> JNum 1])) newSettingsManager)
      ''theme'' = Some (JStr ''dark'')
   \<and> snd (load (Resolves (Some [''theme'' \<mapsto> JStr ''dark'', ''legacyKey'' \<mapsto> JNum 1])) newSettingsManager)
      ''legacyKey'' = Some (JNum 1)
   \<and> snd (load (Resolves (Some [''theme'' \<mapsto> JStr ''dark'', ''legacyKey'' \<mapsto> JNum 1])) newSettingsManager)
      ''fontSize'' = Some (JNum 18)"
proof -
  let ?saved = "[''theme'' \<mapsto> JStr ''dark'', ''legacyKey'' \<mapsto> JNum 1] :: settingsObject"
  note merge = load_merges_defaults_with_stored [of ?saved]
  have a: "?saved ''theme'' = Some (JStr ''dark'')" by simp
  have b: "?saved ''legacyKey'' = Some (JNum 1)" by simp
  have c: "?saved ''fontSize'' = None" by simp
  have d: "defaultSettings ''fontSize'' = Some (JNum 18)" by (simp add: defaultSettings_def)
  from merge a have 1: "snd (load (Resolves (Some ?saved)) newSettingsManager) ''theme'' = Some (JStr ''dark'')"
    by blast
  from merge b have 2: "snd (load (Resolves (Some ?saved)) newSettingsManager) ''legacyKey'' = Some (JNum 1)"
    by blast
  from merge c d have 3: "snd (load (Resolves (Some ?saved)) newSettingsManager) ''fontSize'' = Some (JNum 18)"
    by metis
  from 1 2 3 show ?thesis by blast
qed

section \<open>Metadata edits\<close>

text \<open>
  C10. Saving an edit of an entry that is still in the library replaces an empty title
  input by \<open>Unknown Title\<close> and an empty author input by \<open>Unknown Author\<close> (any other
  input is stored as typed); the stored title and author are never the empty string, and
  the library saved is the edited one.
\<close>

theorem saveEditedBook_never_stores_empty:
  assumes "editingBookId s = Some bId" and "bId \<noteq> []"
    and "find (\<lambda>b. entryId b = bId) (library s) = Some b"
  shows "find (\<lambda>b. entryId b = bId) (library (saveEditedBook titleValue authorValue s))
           = Some (b\<lparr>title := (if titleValue = [] then ''Unknown Title'' else titleValue),
                     author := (if authorValue = [] then ''Unknown Author'' else authorValue)\<rparr>)
         \<and> (if titleValue = [] then ''Unknown Title'' else titleValue) \<noteq> []
         \<and> (if authorValue = [] then ''Unknown Author'' else authorValue) \<noteq> []
         \<and> librarySaves (saveEditedBook titleValue authorValue s)
             = librarySaves s @ [library (saveEditedBook titleValue authorValue s)]"
proof -
  let ?f = "\<lambda>b. b\<lparr>title := orElse (Some titleValue) ''Unknown Title'',
                     author := orElse (Some authorValue) ''Unknown Author''\<rparr>"
  have found: "entryId b = bId"
    using assms(3) by (auto dest: find_Some_iff [THEN iffD1])
  have lib: "library (saveEditedBook titleValue authorValue s)
               = updateFirst (\<lambda>b. entryId b = bId) ?f (library s)"
    using assms by (simp add: saveEditedBook_def saveLibrary_def)
  have saves: "librarySaves (saveEditedBook titleValue authorValue s)
               = librarySaves s @ [updateFirst (\<lambda>b. entryId b = bId) ?f (library s)]"
    using assms by (simp add: saveEditedBook_def saveLibrary_def)
  have "find (\<lambda>b. entryId b = bId) (updateFirst (\<lambda>b. entryId b = bId) ?f (library s)) = Some (?f b)"
    using assms(3) found by (intro find_updateFirst) simp_all
  then show ?thesis
    using lib saves by (simp add: orElse_Some)
qed

theorem saveEditedBook_never_stores_empty_witness:
  "find (\<lambda>b. entryId b = ''isbn123'')
     (library (saveEditedBook [] []
        (initialRenderer\<lparr>library :=
            [\<lparr>entryId = ''isbn123'', path = ''/books/a.epub'', title = ''Foo'', author = ''Bar'',
              fileType = ''epub'', coverPath = None, addedDate = ''2025-01-01T00:00:00.000Z'',
              lastOpened = None, lastPosition = None, progress = 0\<rparr>],
           editingBookId := Some ''isbn123''\<rparr>)))
   = Some \<lparr>entryId = ''isbn123'', path = ''/books/a.epub'', title = ''Unknown Title'',
           author = ''Unknown Author'', fileType = ''epub'', coverPath = None,
           addedDate = ''2025-01-01T00:00:00.000Z'', lastOpened = None, lastPosition = None,
           progress = 0\<rparr>"
proof -
  let ?e = "\<lparr>entryId = ''isbn123'', path = ''/books/a.epub'', title = ''Foo'', author = ''Bar'',
              fileType = ''epub'', coverPath = None, addedDate = ''2025-01-01T00:00:00.000Z'',
              lastOpened = None, lastPosition = None, progress = 0\<rparr>"
  let ?s = "initialRenderer\<lparr>library := [?e], editingBookId := Some ''isbn123''\<rparr>"
  have h1: "editingBookId ?s = Some ''isbn123''" by simp
  have h2: "''isbn123'' \<noteq> []" by simp
  have h3: "find (\<lambda>b. entryId b = ''isbn123'') (library ?s) = Some ?e" by simp
  from saveEditedBook_never_stores_empty [OF h1 h2 h3, of "[]" "[]"]
  show ?thesis by simp
qed

section \<open>Deleting a highlight\<close>

lemma filter_absent: "hId \<notin> highlightId ` set hs \<Longrightarrow> filter (\<lambda>h. highlightId h \<noteq> hId) hs = hs"
  by (induction hs) auto

lemma filter_unique:
  "distinct (map highlightId hs) \<Longrightarrow> h \<in> set hs \<Longrightarrow>
     filter (\<lambda>x. highlightId x \<noteq> highlightId h) hs = remove1 h hs"
proof (induction hs)
  case Nil
  then show ?case by simp
next
  case (Cons x hs)
  show ?case
  proof (cases "x = h")
    case True
    then have "highlightId h \<notin> highlightId ` set hs" using Cons.prems by auto
    then show ?thesis using True by (simp add: filter_absent)
  next
    case False
    then have "h \<in> set hs" using Cons.prems by simp
    moreover have "highlightId x \<noteq> highlightId h"
      using Cons.prems \<open>h \<in> set hs\<close> by auto
    ultimately show ?thesis using Cons False by simp
  qed
qed

text \<open>
  C7 (as amended). Once the user has confirmed the prompt, deleting removes the records
  with the given id and keeps the others in order: an id that is absent leaves the set
  unchanged, an id that is present (ids being unique in the set) removes exactly that
  record; in both cases the whole resulting set is passed to persistence, once. When the
  user declines the prompt nothing changes and nothing is persisted. No case raises an
  error.
\<close>

theorem deleteHighlight_confirmed:
  "highlights (deleteHighlight True hId s) = filter (\<lambda>h. highlightId h \<noteq> hId) (highlights s)
   \<and> (hId \<notin> highlightId ` set (highlights s) \<longrightarrow>
        highlights (deleteHighlight True hId s) = highlights s)
   \<and> (\<forall>h. distinct (map highlightId (highlights s)) \<and> h \<in> set (highlights s) \<and> highlightId h = hId \<longrightarrow>
        highlights (deleteHighlight True hId s) = remove1 h (highlights s))
   \<and> highlightSaves (deleteHighlight True hId s)
        = highlightSaves s @ [(bookIdentifier s, highlights (deleteHighlight True hId s))]
   \<and> deleteHighlight False hId s = s"
proof -
  have a: "highlights (deleteHighlight True hId s) = filter (\<lambda>h. highlightId h \<noteq> hId) (highlights s)"
    by (simp add: deleteHighlight_def saveHighlightsToFile_def)
  have b: "hId \<notin> highlightId ` set (highlights s) \<longrightarrow>
        highlights (deleteHighlight True hId s) = highlights s"
    using a filter_absent by metis
  have c: "\<forall>h. distinct (map highlightId (highlights s)) \<and> h \<in> set (highlights s) \<and> highlightId h = hId \<longrightarrow>
        highlights (deleteHighlight True hId s) = remove1 h (highlights s)"
    using a filter_unique by metis
  have d: "highlightSaves (deleteHighlight True hId s)
        = highlightSaves s @ [(bookIdentifier s, highlights (deleteHighlight True hId s))]"
    by (simp add: deleteHighlight_def saveHighlightsToFile_def)
  have e: "deleteHighlight False hId s = s"
    by (simp add: deleteHighlight_def)
  from a b c d e show ?thesis by blast
qed

theorem deleteHighlight_confirmed_witness:
  "highlights (deleteHighlight True ''2''
      (initialRenderer\<lparr>highlights :=
         [\<lparr>highlightId = ''1'', cfiRange = ''epubcfi(/6/4!/4/2,/1:0,/1:10)'', highlightText = ''a'',
           color = ''yellow'', highlightNote = [], created = ''2025-01-01T00:00:00.000Z''\<rparr>]\<rparr>))
   = [\<lparr>highlightId = ''1'', cfiRange = ''epubcfi(/6/4!/4/2,/1:0,/1:10)'', highlightText = ''a'',
           color = ''yellow'', highlightNote = [], created = ''2025-01-01T00:00:00.000Z''\<rparr>]
   \<and> highlights (deleteHighlight True ''1''
      (initialRenderer\<lparr>highlights :=
         [\<lparr>highlightId = ''1'', cfiRange = ''epubcfi(/6/4!/4/2,/1:0,/1:10)'', highlightText = ''a'',
           color = ''yellow'', highlightNote = [], created = ''2025-01-01T00:00:00.000Z''\<rparr>]\<rparr>))
   = []"
proof -
  let ?h = "\<lparr>highlightId = ''1'', cfiRange = ''epubcfi(/6/4!/4/2,/1:0,/1:10)'', highlightText = ''a'',
           color = ''yellow'', highlightNote = [], created = ''2025-01-01T00:00:00.000Z''\<rparr>"
  let ?s = "initialRenderer\<lparr>highlights := [?h]\<rparr>"
  have absent: "''2'' \<notin> highlightId ` set (highlights ?s)" by simp
  have present: "distinct (map highlightId (highlights ?s)) \<and> ?h \<in> set (highlights ?s) \<and> highlightId ?h = ''1''"
    by simp
  from deleteHighlight_confirmed [of "''2''" ?s] absent
  have a: "highlights (deleteHighlight True ''2'' ?s) = highlights ?s" by blast
  from deleteHighlight_confirmed [of "''1''" ?s] present
  have b: "highlights (deleteHighlight True ''1'' ?s) = remove1 ?h (highlights ?s)" by blast
  from a b show ?thesis by simp
qed

text \<open>The claim as stated fails when the prompt is declined: for an id that is not in
  the set, persistence is not invoked.\<close>

theorem deleteHighlight_declined_counterexample:
  "''1700000000000'' \<notin> highlightId ` set (highlights initialRenderer)
   \<and> highlightSaves (deleteHighlight False ''1700000000000'' initialRenderer)
       = highlightSaves initialRenderer"
  by (simp add: deleteHighlight_def initialRenderer_def)

section \<open>Book identity: stability and shape of the identifier\<close>

text \<open>
  C6. Whenever the metadata of the open book can be read, the identifier
  \<open>generateBookIdentifier\<close> resolves depends on the metadata alone: two resolutions from the
  same metadata, at any two times and in any two states of the renderer, give the same
  identifier (no timestamp enters on this path).
\<close>

theorem generateBookIdentifier_deterministic:
  assumes "book s1 = Some b" and "book s2 = Some b" and "loadedMetadata b = Some m"
  shows "bookIdentifier (generateBookIdentifier t1 s1) = bookIdentifier (generateBookIdentifier t2 s2)"
  using assms by (simp add: generateBookIdentifier_def)

theorem generateBookIdentifier_deterministic_witness:
  "bookIdentifier (generateBookIdentifier 1700000000000
      (initialRenderer\<lparr>book := Some \<lparr>loadedMetadata =
          Some \<lparr>metaIdentifier = None, metaTitle = Some ''Foo'', creator = Some ''Bar''\<rparr>\<rparr>\<rparr>))
   = bookIdentifier (generateBookIdentifier 1800000000000
      (initialRenderer\<lparr>book := Some \<lparr>loadedMetadata =
          Some \<lparr>metaIdentifier = None, metaTitle = Some ''Foo'', creator = Some ''Bar''\<rparr>\<rparr>,
        currentBookPath := Some ''/books/a.epub''\<rparr>))"
proof -
  let ?m = "\<lparr>metaIdentifier = None, metaTitle = Some ''Foo'', creator = Some ''Bar''\<rparr>"
  let ?b = "\<lparr>loadedMetadata = Some ?m\<rparr>"
  have h1: "book (initialRenderer\<lparr>book := Some ?b\<rparr>) = Some ?b" by simp
  have h2: "book (initialRenderer\<lparr>book := Some ?b, currentBookPath := Some ''/books/a.epub''\<rparr>) = Some ?b"
    by simp
  have h3: "loadedMetadata ?b = Some ?m" by simp
  from generateBookIdentifier_deterministic [OF h1 h2 h3, of 1700000000000 1800000000000]
  show ?thesis .
qed

lemma toLowerChar_dash: "toLowerChar (CHR ''-'') = CHR ''-''"
  by (simp add: toLowerChar_def)

lemma lowered_replaced_nth:
  "i < length src \<Longrightarrow>
     toLowerCase (replaceNonAlnum src) ! i
       = (if isAlnum (src ! i) then toLowerChar (src ! i) else CHR ''-'')"
  by (simp add: toLowerCase_def replaceNonAlnum_def toLowerChar_dash)

lemma slug_nth:
  "i < length (t @ ''-'' @ a) \<Longrightarrow>
     slug t a ! i = (if isAlnum ((t @ ''-'' @ a) ! i) then toLowerChar ((t @ ''-'' @ a) ! i) else CHR ''-'')"
  unfolding slug_def by (rule lowered_replaced_nth)

lemma length_slug: "length (slug t a) = length t + 1 + length a"
  by (simp add: slug_def toLowerCase_def replaceNonAlnum_def)

text \<open>
  C4 (as amended). Without a publisher identifier, the identifier is the text
  \<open>title-author\<close> (each \<open>unknown\<close> when missing) in which every single non-alphanumeric
  character is replaced by one \<open>-\<close> and every other character is lower-cased: the result
  has the length of that text, so a run of several non-alphanumeric characters yields as
  many separators.
\<close>

theorem fallback_identifier_replaces_each_character:
  assumes "book s = Some b" and "loadedMetadata b = Some m" and "\<not> truthy (metaIdentifier m)"
  shows "\<exists>r. bookIdentifier (generateBookIdentifier t s) = Some r
     \<and> length r = length (orElse (metaTitle m) ''unknown'') + 1 + length (orElse (creator m) ''unknown'')
     \<and> (\<forall>i < length r.
           r ! i = (if isAlnum ((orElse (metaTitle m) ''unknown'' @ ''-'' @ orElse (creator m) ''unknown'') ! i)
                    then toLowerChar ((orElse (metaTitle m) ''unknown'' @ ''-'' @ orElse (creator m) ''unknown'') ! i)
                    else CHR ''-''))"
proof -
  let ?t = "orElse (metaTitle m) ''unknown''" and ?a = "orElse (creator m) ''unknown''"
  have r: "bookIdentifier (generateBookIdentifier t s) = Some (slug ?t ?a)"
    using assms by (simp add: generateBookIdentifier_def)
  have len: "length (slug ?t ?a) = length ?t + 1 + length ?a"
    by (rule length_slug)
  have chars: "\<forall>i < length (slug ?t ?a).
      slug ?t ?a ! i = (if isAlnum ((?t @ ''-'' @ ?a) ! i) then toLowerChar ((?t @ ''-'' @ ?a) ! i) else CHR ''-'')"
  proof (intro allI impI)
    fix i assume "i < length (slug ?t ?a)"
    then have "i < length (?t @ ''-'' @ ?a)" by (simp add: length_slug)
    then show "slug ?t ?a ! i = (if isAlnum ((?t @ ''-'' @ ?a) ! i) then toLowerChar ((?t @ ''-'' @ ?a) ! i) else CHR ''-'')"
      by (rule slug_nth)
  qed
  from r len chars show ?thesis by blast
qed

theorem fallback_identifier_replaces_each_character_witness:
  "bookIdentifier (generateBookIdentifier 0
      (initialRenderer\<lparr>book := Some \<lparr>loadedMetadata =
          Some \<lparr>metaIdentifier = None, metaTitle = Some ''A, B'', creator = Some ''C''\<rparr>\<rparr>\<rparr>))
     \<noteq> None
   \<and> length (the (bookIdentifier (generateBookIdentifier 0
      (initialRenderer\<lparr>book := Some \<lparr>loadedMetadata =
          Some \<lparr>metaIdentifier = None, metaTitle = Some ''A, B'', creator = Some ''C''\<rparr>\<rparr>\<rparr>)))) = 6"
proof -
  let ?m = "\<lparr>metaIdentifier = None, metaTitle = Some ''A, B'', creator = Some ''C''\<rparr>"
  let ?b = "\<lparr>loadedMetadata = Some ?m\<rparr>"
  let ?s = "initialRenderer\<lparr>book := Some ?b\<rparr>"
  have h1: "book ?s = Some ?b" by simp
  have h2: "loadedMetadata ?b = Some ?m" by simp
  have h3: "\<not> truthy (metaIdentifier ?m)" by (simp add: truthy_def)
  from fallback_identifier_replaces_each_character [OF h1 h2 h3, of 0]
  obtain r where r: "bookIdentifier (generateBookIdentifier 0 ?s) = Some r"
    and len: "length r = length (orElse (metaTitle ?m) ''unknown'') + 1 + length (orElse (creator ?m) ''unknown'')"
    by blast
  from len have "length r = 6" by (simp add: orElse_def)
  with r show ?thesis by simp
qed

text \<open>The claim as stated fails: the two adjacent non-alphanumeric characters of the
  title \<open>A, B\<close> yield two separators.\<close>

theorem fallback_identifier_runs_counterexample:
  "bookIdentifier (generateBookIdentifier 0
      (initialRenderer\<lparr>book := Some \<lparr>loadedMetadata =
          Some \<lparr>metaIdentifier = None, metaTitle = Some ''A, B'', creator = Some ''C''\<rparr>\<rparr>\<rparr>))
     = Some ''a--b-c''"
  by (simp add: generateBookIdentifier_def initialRenderer_def truthy_def orElse_def slug_def
      toLowerCase_def replaceNonAlnum_def isAlnum_def toLowerChar_def)

section \<open>Recording progress\<close>




section \<open>One library entry per path\<close>

lemma find_path_iff: "(find (\<lambda>b. path b = p) xs = None) = (p \<notin> path ` set xs)"
  by (auto simp: find_None_iff)

lemma find_path_Some: "p \<in> path ` set xs \<Longrightarrow> \<exists>b. find (\<lambda>b. path b = p) xs = Some b"
  using find_path_iff [of p xs] by (cases "find (\<lambda>b. path b = p) xs") auto

lemma newLibraryEntry_path:
  "newLibraryEntry env filePath titleArg authorArg fType = Some e \<Longrightarrow> path e = filePath"
  by (auto simp: newLibraryEntry_def Let_def split: if_splits option.splits)

lemma newLibraryEntry_fileType:
  "newLibraryEntry env filePath titleArg authorArg fType = Some e \<Longrightarrow> fileType e = fType"
  by (auto simp: newLibraryEntry_def Let_def split: if_splits option.splits)

lemma body_existing:
  assumes "filePath \<noteq> []" and "filePath \<in> path ` set (library s)"
  shows "addBookToLibrary_body env (Some filePath) titleArg authorArg fileTypeArg s = (s, None)"
proof -
  obtain b where "find (\<lambda>b. path b = filePath) (library s) = Some b"
    using find_path_Some [OF assms(2)] by blast
  then show ?thesis
    using assms(1) by (simp add: addBookToLibrary_body_def addBookToLibrary_check_def
        addBookToLibrary_resume_def orElseOpt_def truthy_def Let_def)
qed

lemma body_existing_dialog:
  assumes "filePath \<noteq> []" and "filePath \<in> path ` set (library s)"
    and "dialogChoice env = Some filePath"
  shows "addBookToLibrary_body env None titleArg authorArg fileTypeArg s = (s, Some filePath)"
proof -
  obtain b where "find (\<lambda>b. path b = filePath) (library s) = Some b"
    using find_path_Some [OF assms(2)] by blast
  then show ?thesis
    using assms(1,3) by (simp add: addBookToLibrary_body_def addBookToLibrary_check_def
        addBookToLibrary_resume_def orElseOpt_def truthy_def Let_def)
qed

lemma body_library:
  "library (fst (addBookToLibrary_body env filePathArg titleArg authorArg fileTypeArg s)) = library s
   \<or> (\<exists>e. library (fst (addBookToLibrary_body env filePathArg titleArg authorArg fileTypeArg s))
             = e # library s \<and> path e \<notin> path ` set (library s))"
  by (auto simp: addBookToLibrary_body_def addBookToLibrary_check_def
        addBookToLibrary_resume_def Let_def saveLibrary_def find_path_iff
      dest: newLibraryEntry_path split: option.splits if_splits)

lemma body_distinct:
  "distinct (map path (library s)) \<Longrightarrow>
     distinct (map path (library (fst (addBookToLibrary_body env filePathArg titleArg authorArg fileTypeArg s))))"
  using body_library [of env filePathArg titleArg authorArg fileTypeArg s] by auto

lemma loadEPUB_library: "library (loadEPUB env filePath s) = library s"
  by (simp add: loadEPUB_def Let_def saveSettings_def loadHighlights_def generateBookIdentifier_def
      split: option.splits)

lemma loadPDF_distinct:
  "distinct (map path (library s)) \<Longrightarrow> distinct (map path (library (fst (loadPDF env filePath s))))"
proof -
  assume d: "distinct (map path (library s))"
  show ?thesis
  proof (cases "pdfSupport env \<and> pdfNumPages env \<noteq> None")
    case False
    then show ?thesis using d by (auto simp: loadPDF_def Let_def split: option.splits)
  next
    case True
    then obtain n where n: "pdfNumPages env = Some n" by auto
    let ?s2 = "s\<lparr>rendition := None, pdfViewer := Some (PDFViewer_loadPDF n newPDFViewer),
                  currentFileType := Some ''pdf''\<rparr>"
    have "distinct (map path (library ?s2))" using d by simp
    from body_distinct [OF this] show ?thesis
      using True n by (simp add: loadPDF_def Let_def)
  qed
qed

lemma loadBook_distinct:
  "distinct (map path (library s)) \<Longrightarrow> distinct (map path (library (loadBook env filePath s)))"
proof -
  assume d: "distinct (map path (library s))"
  have d1: "distinct (map path (library (s\<lparr>currentBookPath := Some filePath\<rparr>)))"
    using d by simp
  show ?thesis
    using loadPDF_distinct [OF d1, of env filePath] d
    by (auto simp: loadBook_def Let_def loadEPUB_library split: prod.splits)
qed

lemma loadPDF_existing:
  assumes "filePath \<noteq> []" and "filePath \<in> path ` set (library s)"
  shows "library (fst (loadPDF env filePath s)) = library s"
proof (cases "pdfSupport env \<and> pdfNumPages env \<noteq> None")
  case False
  then show ?thesis by (auto simp: loadPDF_def Let_def split: option.splits)
next
  case True
  then obtain n where n: "pdfNumPages env = Some n" by auto
  let ?s2 = "s\<lparr>rendition := None, pdfViewer := Some (PDFViewer_loadPDF n newPDFViewer),
                currentFileType := Some ''pdf''\<rparr>"
  have "filePath \<in> path ` set (library ?s2)" using assms(2) by simp
  from body_existing [OF assms(1) this] show ?thesis
    using True n by (simp add: loadPDF_def Let_def)
qed

lemma loadBook_existing:
  assumes "filePath \<noteq> []" and "filePath \<in> path ` set (library s)"
  shows "library (loadBook env filePath s) = library s"
proof -
  have "filePath \<in> path ` set (library (s\<lparr>currentBookPath := Some filePath\<rparr>))"
    using assms(2) by simp
  from loadPDF_existing [OF assms(1) this, of env] show ?thesis
    by (auto simp: loadBook_def Let_def loadEPUB_library split: prod.splits)
qed

lemma addBookToLibrary_distinct:
  assumes "distinct (map path (library s))"
  shows "distinct (map path (library (addBookToLibrary env filePathArg titleArg authorArg fileTypeArg s)))"
proof -
  obtain s1 r where b: "addBookToLibrary_body env filePathArg titleArg authorArg fileTypeArg s = (s1, r)"
    by (cases "addBookToLibrary_body env filePathArg titleArg authorArg fileTypeArg s")
  have d1: "distinct (map path (library s1))"
    using body_distinct [OF assms, of env filePathArg titleArg authorArg fileTypeArg] b by simp
  show ?thesis
    using b d1 loadBook_distinct [OF d1]
    by (cases r) (simp_all add: addBookToLibrary_def)
qed

lemma addBookToLibrary_existing:
  assumes "filePath \<noteq> []" and "filePath \<in> path ` set (library s)"
  shows "addBookToLibrary env (Some filePath) titleArg authorArg fileTypeArg s = s"
  using body_existing [OF assms] by (simp add: addBookToLibrary_def)

lemma addBookToLibrary_existing_dialog:
  assumes "filePath \<noteq> []" and "filePath \<in> path ` set (library s)"
    and "dialogChoice env = Some filePath"
  shows "library (addBookToLibrary env None titleArg authorArg fileTypeArg s) = library s"
  using body_existing_dialog [OF assms] loadBook_existing [OF assms(1,2)]
  by (simp add: addBookToLibrary_def)

text \<open>
  A path that is already in the library stops the function at its duplicate check, which
  is synchronous with the call: nothing is left awaiting, so nothing is inserted later,
  whatever else the renderer does meanwhile.
\<close>

lemma addBookToLibrary_check_present:
  assumes "filePath \<noteq> []" and "filePath \<in> path ` set (library s)"
  shows "addBookToLibrary_check env (Some filePath) titleArg authorArg fileTypeArg s = Returns None"
    and "addBookToLibrary_check (env\<lparr>dialogChoice := Some filePath\<rparr>) None titleArg authorArg
           fileTypeArg s = Returns (Some filePath)"
proof -
  obtain b where b: "find (\<lambda>b. path b = filePath) (library s) = Some b"
    using find_path_Some [OF assms(2)] by blast
  show "addBookToLibrary_check env (Some filePath) titleArg authorArg fileTypeArg s = Returns None"
    using assms(1) b by (simp add: addBookToLibrary_check_def orElseOpt_def truthy_def Let_def)
  show "addBookToLibrary_check (env\<lparr>dialogChoice := Some filePath\<rparr>) None titleArg authorArg
           fileTypeArg s = Returns (Some filePath)"
    using assms(1) b by (simp add: addBookToLibrary_check_def orElseOpt_def truthy_def Let_def)
qed

text \<open>
  Adds that do not overlap: a path already in the library leaves the library as it is,
  also when it is added a second time, and an add that runs from its check to its
  insertion with no other handler in between keeps the paths of the library distinct.
\<close>

lemma addBookToLibrary_without_overlap:
  "(filePath \<noteq> [] \<and> filePath \<in> path ` set (library s) \<longrightarrow>
      library (addBookToLibrary env (Some filePath) titleArg authorArg fileTypeArg s) = library s
      \<and> length (library (addBookToLibrary env (Some filePath) titleArg authorArg fileTypeArg s))
          = length (library s)
      \<and> map_option entryId (find (\<lambda>b. path b = filePath)
            (library (addBookToLibrary env (Some filePath) titleArg authorArg fileTypeArg s)))
          = map_option entryId (find (\<lambda>b. path b = filePath) (library s))
      \<and> library (addBookToLibrary env' (Some filePath) titleArg' authorArg' fileTypeArg'
            (addBookToLibrary env (Some filePath) titleArg authorArg fileTypeArg s)) = library s
      \<and> library (addBookToLibrary (env\<lparr>dialogChoice := Some filePath\<rparr>) None
            titleArg authorArg fileTypeArg s) = library s)
   \<and> (distinct (map path (library s)) \<longrightarrow>
      distinct (map path
        (library (addBookToLibrary env filePathArg titleArg authorArg fileTypeArg s))))"
proof (intro conjI impI)
  assume h: "filePath \<noteq> [] \<and> filePath \<in> path ` set (library s)"
  then have ne: "filePath \<noteq> []" and mem: "filePath \<in> path ` set (library s)" by simp_all
  have same: "addBookToLibrary env (Some filePath) titleArg authorArg fileTypeArg s = s"
    by (rule addBookToLibrary_existing [OF ne mem])
  show "library (addBookToLibrary env (Some filePath) titleArg authorArg fileTypeArg s) = library s"
    by (simp add: same)
  show "length (library (addBookToLibrary env (Some filePath) titleArg authorArg fileTypeArg s))
          = length (library s)"
    by (simp add: same)
  show "map_option entryId (find (\<lambda>b. path b = filePath)
            (library (addBookToLibrary env (Some filePath) titleArg authorArg fileTypeArg s)))
          = map_option entryId (find (\<lambda>b. path b = filePath) (library s))"
    by (simp add: same)
  show "library (addBookToLibrary env' (Some filePath) titleArg' authorArg' fileTypeArg'
            (addBookToLibrary env (Some filePath) titleArg authorArg fileTypeArg s)) = library s"
    by (simp add: same addBookToLibrary_existing [OF ne mem])
  show "library (addBookToLibrary (env\<lparr>dialogChoice := Some filePath\<rparr>) None
            titleArg authorArg fileTypeArg s) = library s"
    by (rule addBookToLibrary_existing_dialog [OF ne mem]) simp
next
  assume "distinct (map path (library s))"
  then show "distinct (map path
        (library (addBookToLibrary env filePathArg titleArg authorArg fileTypeArg s)))"
    by (rule addBookToLibrary_distinct)
qed

text \<open>
  C1. The code does not keep the invariant of one entry per path when two adds of a new
  path overlap. With \<open>/books/a.epub\<close> in the library, the Add Book button is used twice
  for \<open>/books/b.epub\<close>, the second duplicate check running while the first add still
  awaits the file: both checks find no entry, so both adds are left awaiting; the first
  insertion gives the paths \<open>b, a\<close> (a check made now would return at once), and the
  second insertion, which checks nothing, gives \<open>b, b, a\<close>. The paths were distinct
  before and are not afterwards.
\<close>

theorem addBookToLibrary_overlap_duplicates_path:
  "addBookToLibrary_check
      \<lparr>now = 1700000000000, isoNow = ''2025-01-02T00:00:00.000Z'',
       dialogChoice = Some ''/books/b.epub'',
       pdfSupport = True, pdfNumPages = None, pdfInfoTitle = None, pdfInfoAuthor = None,
       epubBook = Some \<lparr>loadedMetadata = Some \<lparr>metaIdentifier = Some ''isbn456'',
                    metaTitle = Some ''Baz'', creator = Some ''Qux''\<rparr>\<rparr>,
       epubCover = None, storedHighlights = Some [], cfiResolves = True, errorMessage = []\<rparr>
      None None None None
      (initialRenderer\<lparr>library :=
            [\<lparr>entryId = ''isbn123'', path = ''/books/a.epub'', title = ''Foo'', author = ''Bar'',
              fileType = ''epub'', coverPath = None, addedDate = ''2025-01-01T00:00:00.000Z'',
              lastOpened = None, lastPosition = None, progress = 0\<rparr>]\<rparr>)
    = Awaits \<lparr>addFilePath = ''/books/b.epub'', addTitleArg = None, addAuthorArg = None,
               addFileType = ''epub'', addOpens = Some ''/books/b.epub''\<rparr>
   \<and> map path (library (fst (addBookToLibrary_resume
      \<lparr>now = 1700000000000, isoNow = ''2025-01-02T00:00:00.000Z'',
       dialogChoice = Some ''/books/b.epub'',
       pdfSupport = True, pdfNumPages = None, pdfInfoTitle = None, pdfInfoAuthor = None,
       epubBook = Some \<lparr>loadedMetadata = Some \<lparr>metaIdentifier = Some ''isbn456'',
                    metaTitle = Some ''Baz'', creator = Some ''Qux''\<rparr>\<rparr>,
       epubCover = None, storedHighlights = Some [], cfiResolves = True, errorMessage = []\<rparr>
      \<lparr>addFilePath = ''/books/b.epub'', addTitleArg = None, addAuthorArg = None,
       addFileType = ''epub'', addOpens = Some ''/books/b.epub''\<rparr>
      (initialRenderer\<lparr>library :=
            [\<lparr>entryId = ''isbn123'', path = ''/books/a.epub'', title = ''Foo'', author = ''Bar'',
              fileType = ''epub'', coverPath = None, addedDate = ''2025-01-01T00:00:00.000Z'',
              lastOpened = None, lastPosition = None, progress = 0\<rparr>]\<rparr>))))
    = [''/books/b.epub'', ''/books/a.epub'']
   \<and> addBookToLibrary_check
      \<lparr>now = 1700000000000, isoNow = ''2025-01-02T00:00:00.000Z'',
       dialogChoice = Some ''/books/b.epub'',
       pdfSupport = True, pdfNumPages = None, pdfInfoTitle = None, pdfInfoAuthor = None,
       epubBook = Some \<lparr>loadedMetadata = Some \<lparr>metaIdentifier = Some ''isbn456'',
                    metaTitle = Some ''Baz'', creator = Some ''Qux''\<rparr>\<rparr>,
       epubCover = None, storedHighlights = Some [], cfiResolves = True, errorMessage = []\<rparr>
      None None None None
      (fst (addBookToLibrary_resume
      \<lparr>now = 1700000000000, isoNow = ''2025-01-02T00:00:00.000Z'',
       dialogChoice = Some ''/books/b.epub'',
       pdfSupport = True, pdfNumPages = None, pdfInfoTitle = None, pdfInfoAuthor = None,
       epubBook = Some \<lparr>loadedMetadata = Some \<lparr>metaIdentifier = Some ''isbn456'',
                    metaTitle = Some ''Baz'', creator = Some ''Qux''\<rparr>\<rparr>,
       epubCover = None, storedHighlights = Some [], cfiResolves = True, errorMessage = []\<rparr>
      \<lparr>addFilePath = ''/books/b.epub'', addTitleArg = None, addAuthorArg = None,
       addFileType = ''epub'', addOpens = Some ''/books/b.epub''\<rparr>
      (initialRenderer\<lparr>library :=
            [\<lparr>entryId = ''isbn123'', path = ''/books/a.epub'', title = ''Foo'', author = ''Bar'',
              fileType = ''epub'', coverPath = None, addedDate = ''2025-01-01T00:00:00.000Z'',
              lastOpened = None, lastPosition = None, progress = 0\<rparr>]\<rparr>)))
    = Returns (Some ''/books/b.epub'')
   \<and> map path (library (fst (addBookToLibrary_resume
      \<lparr>now = 1700000000000, isoNow = ''2025-01-02T00:00:00.000Z'',
       dialogChoice = Some ''/books/b.epub'',
       pdfSupport = True, pdfNumPages = None, pdfInfoTitle = None, pdfInfoAuthor = None,
       epubBook = Some \<lparr>loadedMetadata = Some \<lparr>metaIdentifier = Some ''isbn456'',
                    metaTitle = Some ''Baz'', creator = Some ''Qux''\<rparr>\<rparr>,
       epubCover = None, storedHighlights = Some [], cfiResolves = True, errorMessage = []\<rparr>
      \<lparr>addFilePath = ''/books/b.epub'', addTitleArg = None, addAuthorArg = None,
       addFileType = ''epub'', addOpens = Some ''/books/b.epub''\<rparr>
      (fst (addBookToLibrary_resume
      \<lparr>now = 1700000000000, isoNow = ''2025-01-02T00:00:00.000Z'',
       dialogChoice = Some ''/books/b.epub'',
       pdfSupport = True, pdfNumPages = None, pdfInfoTitle = None, pdfInfoAuthor = None,
       epubBook = Some \<lparr>loadedMetadata = Some \<lparr>metaIdentifier = Some ''isbn456'',
                    metaTitle = Some ''Baz'', creator = Some ''Qux''\<rparr>\<rparr>,
       epubCover = None, storedHighlights = Some [], cfiResolves = True, errorMessage = []\<rparr>
      \<lparr>addFilePath = ''/books/b.epub'', addTitleArg = None, addAuthorArg = None,
       addFileType = ''epub'', addOpens = Some ''/books/b.epub''\<rparr>
      (initialRenderer\<lparr>library :=
            [\<lparr>entryId = ''isbn123'', path = ''/books/a.epub'', title = ''Foo'', author = ''Bar'',
              fileType = ''epub'', coverPath = None, addedDate = ''2025-01-01T00:00:00.000Z'',
              lastOpened = None, lastPosition = None, progress = 0\<rparr>]\<rparr>))))))
    = [''/books/b.epub'', ''/books/b.epub'', ''/books/a.epub'']
   \<and> distinct (map path (library (initialRenderer\<lparr>library :=
            [\<lparr>entryId = ''isbn123'', path = ''/books/a.epub'', title = ''Foo'', author = ''Bar'',
              fileType = ''epub'', coverPath = None, addedDate = ''2025-01-01T00:00:00.000Z'',
              lastOpened = None, lastPosition = None, progress = 0\<rparr>]\<rparr>)))
   \<and> \<not> distinct [''/books/b.epub'', ''/books/b.epub'', ''/books/a.epub'']"
proof -
  have ext: "extension ''/books/b.epub'' = ''epub''"
    by (simp add: extension_def pop_def orElse_def toLowerCase_def toLowerChar_def)
  show ?thesis
    by (simp add: addBookToLibrary_check_def addBookToLibrary_resume_def newLibraryEntry_def
        orElseOpt_def truthy_def orElse_def ext Let_def saveLibrary_def initialRenderer_def)
qed

section \<open>Resuming a PDF\<close>

lemma parseInt_Nil: "parseInt [] = None"
  by (simp add: parseInt_def)

lemma extension_Nil: "extension [] = []"
  by (simp add: extension_def pop_def orElse_def toLowerCase_def)

lemma loaded_viewer:
  "PDFViewer_loadPDF n newPDFViewer =
     \<lparr>pdfDoc = True, currentPage = 1, totalPages = int n, pageRendering = False,
      pageNumPending = None\<rparr>"
  by (simp add: PDFViewer_loadPDF_def newPDFViewer_def renderPage_def)

lemma goToPage_loaded:
  "1 \<le> p \<Longrightarrow> p \<le> int n \<Longrightarrow> goToPage p (PDFViewer_loadPDF n newPDFViewer) =
     \<lparr>pdfDoc = True, currentPage = p, totalPages = int n, pageRendering = False,
      pageNumPending = None\<rparr>"
  by (simp add: loaded_viewer goToPage_def renderPage_def)

lemma loadBook_pdf_existing:
  assumes "extension p = ''pdf''" and "pdfSupport env" and "pdfNumPages env = Some n"
    and "p \<in> path ` set (library s)"
  shows "loadBook env p s =
     s\<lparr>currentBookPath := Some p, rendition := None,
       pdfViewer := Some (PDFViewer_loadPDF n newPDFViewer), currentFileType := Some ''pdf''\<rparr>"
proof -
  have ne: "p \<noteq> []" using assms(1) extension_Nil by auto
  let ?s2 = "s\<lparr>currentBookPath := Some p, rendition := None,
       pdfViewer := Some (PDFViewer_loadPDF n newPDFViewer), currentFileType := Some ''pdf''\<rparr>"
  have mem: "p \<in> path ` set (library ?s2)" using assms(4) by simp
  have "addBookToLibrary_body env (Some p)
          (Some (orElse (Some (pdfMetadataTitle env)) ''Untitled PDF''))
          (Some (orElse (Some (pdfMetadataAuthor env)) ''Unknown'')) (Some ''pdf'') ?s2 = (?s2, None)"
    by (rule body_existing [OF ne mem])
  then show ?thesis
    using assms(1,2,3) by (simp add: loadBook_def loadPDF_def Let_def)
qed

lemma updateFirst_paths:
  "map path (updateFirst q (\<lambda>b. b\<lparr>lastOpened := x\<rparr>) xs) = map path xs"
  by (induction xs) auto

lemma find_Some_path: "find (\<lambda>b. path b = p) xs = Some b \<Longrightarrow> p \<in> path ` set xs"
  using find_path_iff [of p xs] by auto

text \<open>
  C9. Resuming a PDF entry of the library (its type is \<open>pdf\<close>, its path has the
  extension \<open>pdf\<close>, and the document loads, with \<open>n\<close> pages): when the last position
  parses as an integer \<open>p\<close> with \<open>1 \<le> p \<le> n\<close> the viewer ends on page \<open>p\<close>; when
  it does not parse as an integer of at least 1 (it is missing, empty, not a number, or
  below 1) the viewer stays on page 1.
\<close>

theorem openBookFromLibrary_resumes_pdf_page:
  assumes "find (\<lambda>b. path b = bookPath) (library s) = Some b"
    and "fileType b = ''pdf''" and "extension bookPath = ''pdf''"
    and "pdfSupport env" and "pdfNumPages env = Some n"
  shows "\<exists>v. pdfViewer (openBookFromLibrary env bookPath s) = Some v \<and> totalPages v = int n
     \<and> (\<forall>lp p. lastPosition b = Some lp \<and> parseInt lp = Some p \<and> 1 \<le> p \<and> p \<le> int n
            \<longrightarrow> currentPage v = p)
     \<and> ((\<forall>lp p. lastPosition b = Some lp \<and> parseInt lp = Some p \<longrightarrow> p < 1)
            \<longrightarrow> currentPage v = 1)"
proof -
  let ?s1 = "saveLibrary (s\<lparr>library :=
                updateFirst (\<lambda>b. path b = bookPath)
                  (\<lambda>b. b\<lparr>lastOpened := Some (isoNow env)\<rparr>) (library s)\<rparr>)"
  let ?v = "PDFViewer_loadPDF n newPDFViewer"
  let ?s2 = "?s1\<lparr>currentBookPath := Some bookPath, rendition := None,
                pdfViewer := Some ?v, currentFileType := Some ''pdf''\<rparr>"
  have "map path (library ?s1) = map path (library s)"
    by (simp add: saveLibrary_def updateFirst_paths)
  then have "path ` set (library ?s1) = path ` set (library s)"
    by (metis set_map)
  then have mem: "bookPath \<in> path ` set (library ?s1)"
    using find_Some_path [OF assms(1)] by simp
  have loaded: "loadBook env bookPath ?s1 = ?s2"
    by (rule loadBook_pdf_existing [OF assms(3,4,5) mem])
  have not_epub: "fileType b \<noteq> ''epub''" using assms(2) by simp
  have result: "openBookFromLibrary env bookPath s =
      (if truthy (lastPosition b) then
         (case parseInt (orElse (lastPosition b) []) of
            None \<Rightarrow> ?s2
          | Some pageNum \<Rightarrow> if pageNum > 0 then ?s2\<lparr>pdfViewer := Some (goToPage pageNum ?v)\<rparr> else ?s2)
       else ?s2)"
    using assms(1,2) loaded by (simp add: openBookFromLibrary_def Let_def split: option.splits)
  show ?thesis
  proof (cases "\<exists>lp p. lastPosition b = Some lp \<and> parseInt lp = Some p \<and> 1 \<le> p")
    case True
    then obtain lp p where lp: "lastPosition b = Some lp" and p: "parseInt lp = Some p" and p1: "1 \<le> p"
      by blast
    have "lp \<noteq> []" using p parseInt_Nil by auto
    then have t: "truthy (lastPosition b)" and o: "orElse (lastPosition b) [] = lp"
      using lp by (simp_all add: truthy_def orElse_def)
    have r: "openBookFromLibrary env bookPath s = ?s2\<lparr>pdfViewer := Some (goToPage p ?v)\<rparr>"
      using result t o p p1 by simp
    show ?thesis
    proof (cases "p \<le> int n")
      case True
      have "goToPage p ?v = \<lparr>pdfDoc = True, currentPage = p, totalPages = int n,
              pageRendering = False, pageNumPending = None\<rparr>"
        by (rule goToPage_loaded [OF p1 True])
      then show ?thesis using r lp p p1 by simp
    next
      case False
      then have "goToPage p ?v = ?v" by (simp add: goToPage_def loaded_viewer)
      then show ?thesis using r lp p p1 False by (simp add: loaded_viewer)
    qed
  next
    case False
    have "pdfViewer (openBookFromLibrary env bookPath s) = Some ?v"
    proof (cases "truthy (lastPosition b)")
      case nt: False
      then show ?thesis using result by simp
    next
      case t: True
      then obtain lp where lp: "lastPosition b = Some lp" and "lp \<noteq> []"
        by (auto simp: truthy_def split: option.splits)
      then have o: "orElse (lastPosition b) [] = lp" by (simp add: orElse_def)
      show ?thesis
      proof (cases "parseInt lp")
        case None
        then show ?thesis using result t o by simp
      next
        case (Some p)
        then have "\<not> 1 \<le> p" using False lp by blast
        then show ?thesis using result t o Some by simp
      qed
    qed
    then show ?thesis using False by (auto simp: loaded_viewer)
  qed
qed

theorem openBookFromLibrary_resumes_pdf_page_witness:
  "map_option currentPage (pdfViewer (openBookFromLibrary
      \<lparr>now = 1700000000000, isoNow = ''2025-01-02T00:00:00.000Z'', dialogChoice = None,
       pdfSupport = True, pdfNumPages = Some 10, pdfInfoTitle = None, pdfInfoAuthor = None,
       epubBook = None, epubCover = None, storedHighlights = None, cfiResolves = False,
       errorMessage = []\<rparr>
      ''/books/b.pdf''
      (initialRenderer\<lparr>library :=
         [\<lparr>entryId = ''b-unknown-1700000000000'', path = ''/books/b.pdf'', title = ''b'',
           author = ''Unknown'', fileType = ''pdf'', coverPath = None,
           addedDate = ''2025-01-01T00:00:00.000Z'', lastOpened = None,
           lastPosition = Some ''5'', progress = 0\<rparr>]\<rparr>))) = Some 5"
proof -
  let ?e = "\<lparr>entryId = ''b-unknown-1700000000000'', path = ''/books/b.pdf'', title = ''b'',
           author = ''Unknown'', fileType = ''pdf'', coverPath = None,
           addedDate = ''2025-01-01T00:00:00.000Z'', lastOpened = None,
           lastPosition = Some ''5'', progress = 0\<rparr>"
  let ?s = "initialRenderer\<lparr>library := [?e]\<rparr>"
  let ?env = "\<lparr>now = 1700000000000, isoNow = ''2025-01-02T00:00:00.000Z'', dialogChoice = None,
       pdfSupport = True, pdfNumPages = Some 10, pdfInfoTitle = None, pdfInfoAuthor = None,
       epubBook = None, epubCover = None, storedHighlights = None, cfiResolves = False,
       errorMessage = []\<rparr>"
  have h1: "find (\<lambda>b. path b = ''/books/b.pdf'') (library ?s) = Some ?e" by simp
  have h2: "fileType ?e = ''pdf''" by simp
  have h3: "extension ''/books/b.pdf'' = ''pdf''"
    by (simp add: extension_def pop_def orElse_def toLowerCase_def toLowerChar_def)
  have h4: "pdfSupport ?env" by simp
  have h5: "pdfNumPages ?env = Some 10" by simp
  have five: "lastPosition ?e = Some ''5'' \<and> parseInt ''5'' = Some 5 \<and> (1::int) \<le> 5 \<and> (5::int) \<le> int 10"
    by (simp add: parseInt_def isWhiteSpace_def isDigitOf_def digitValue_def digitsValue_def Let_def)
  from openBookFromLibrary_resumes_pdf_page [OF h1 h2 h3 h4 h5]
  obtain v where v: "pdfViewer (openBookFromLibrary ?env ''/books/b.pdf'' ?s) = Some v"
    and page: "\<forall>lp p. lastPosition ?e = Some lp \<and> parseInt lp = Some p \<and> 1 \<le> p \<and> p \<le> int 10
                 \<longrightarrow> currentPage v = p"
    by blast
  from page five have "currentPage v = 5" by blast
  with v show ?thesis by simp
qed

section \<open>Selecting the engine\<close>

lemma body_new_fileType:
  assumes "library (fst (addBookToLibrary_body env filePathArg titleArg authorArg None s))
             = e # library s"
    and "orElseOpt filePathArg (dialogChoice env) = Some filePath"
    and "filePath \<noteq> []"
  shows "fileType e = (if extension filePath = ''pdf'' then ''pdf'' else ''epub'')"
proof -
  let ?ft = "if extension filePath = ''pdf'' then ''pdf'' else ''epub''"
  have "newLibraryEntry env filePath titleArg authorArg ?ft = Some e"
    using assms
    by (auto simp: addBookToLibrary_body_def addBookToLibrary_check_def
        addBookToLibrary_resume_def truthy_def Let_def saveLibrary_def
        split: option.splits if_splits)
  then show ?thesis by (rule newLibraryEntry_fileType)
qed

text \<open>
  C3 (as amended). \<open>loadBook\<close> selects the engine by the text after the last dot of the
  path, compared without regard to case: \<open>pdf\<close> goes to \<open>loadPDF\<close>, \<open>epub\<close> to
  \<open>loadEPUB\<close>, and every other extension is rejected with the alert
  \<open>Unsupported file format\<close>, no engine being tried. The fallback to EPUB exists only in
  the type \<open>addBookToLibrary\<close> records for an entry it adds without a given type (the
  path being passed or chosen in the file dialog):
  \<open>pdf\<close> for the extension \<open>pdf\<close>, \<open>epub\<close> for every other one.
\<close>

theorem loadBook_selects_engine_by_extension:
  assumes "CHR ''.'' \<notin> set ext"
  shows "(toLowerCase ext = ''pdf'' \<longrightarrow>
            loadBook env (base @ ''.'' @ ext) s =
              (if snd (loadPDF env (base @ ''.'' @ ext) (s\<lparr>currentBookPath := Some (base @ ''.'' @ ext)\<rparr>))
               then (fst (loadPDF env (base @ ''.'' @ ext) (s\<lparr>currentBookPath := Some (base @ ''.'' @ ext)\<rparr>)))
                      \<lparr>alerts := alerts (fst (loadPDF env (base @ ''.'' @ ext)
                                    (s\<lparr>currentBookPath := Some (base @ ''.'' @ ext)\<rparr>)))
                                  @ [FailedToLoadBook (errorMessage env)]\<rparr>
               else fst (loadPDF env (base @ ''.'' @ ext) (s\<lparr>currentBookPath := Some (base @ ''.'' @ ext)\<rparr>))))
     \<and> (toLowerCase ext = ''epub'' \<longrightarrow>
            loadBook env (base @ ''.'' @ ext) s =
              loadEPUB env (base @ ''.'' @ ext) (s\<lparr>currentBookPath := Some (base @ ''.'' @ ext)\<rparr>))
     \<and> (toLowerCase ext \<noteq> ''pdf'' \<and> toLowerCase ext \<noteq> ''epub'' \<longrightarrow>
            loadBook env (base @ ''.'' @ ext) s =
              s\<lparr>currentBookPath := Some (base @ ''.'' @ ext),
                alerts := alerts s @
                  [FailedToLoadBook ''Unsupported file format. Only EPUB and PDF files are supported.'']\<rparr>)
     \<and> (\<forall>e. library (fst (addBookToLibrary_body env (Some (base @ ''.'' @ ext)) titleArg authorArg None s))
               = e # library s
            \<longrightarrow> fileType e = (if toLowerCase ext = ''pdf'' then ''pdf'' else ''epub''))
     \<and> (\<forall>e. library (fst (addBookToLibrary_body (env\<lparr>dialogChoice := Some (base @ ''.'' @ ext)\<rparr>)
                             None titleArg authorArg None s))
               = e # library s
            \<longrightarrow> fileType e = (if toLowerCase ext = ''pdf'' then ''pdf'' else ''epub''))"
proof -
  have ext: "extension (base @ ''.'' @ ext) = toLowerCase ext"
    by (rule extension_suffix [OF assms])
  have pdf: "toLowerCase ext = ''pdf'' \<longrightarrow>
            loadBook env (base @ ''.'' @ ext) s =
              (if snd (loadPDF env (base @ ''.'' @ ext) (s\<lparr>currentBookPath := Some (base @ ''.'' @ ext)\<rparr>))
               then (fst (loadPDF env (base @ ''.'' @ ext) (s\<lparr>currentBookPath := Some (base @ ''.'' @ ext)\<rparr>)))
                      \<lparr>alerts := alerts (fst (loadPDF env (base @ ''.'' @ ext)
                                    (s\<lparr>currentBookPath := Some (base @ ''.'' @ ext)\<rparr>)))
                                  @ [FailedToLoadBook (errorMessage env)]\<rparr>
               else fst (loadPDF env (base @ ''.'' @ ext) (s\<lparr>currentBookPath := Some (base @ ''.'' @ ext)\<rparr>)))"
    unfolding loadBook_def ext by (simp add: Let_def split: prod.splits)
  have epub: "toLowerCase ext = ''epub'' \<longrightarrow>
            loadBook env (base @ ''.'' @ ext) s =
              loadEPUB env (base @ ''.'' @ ext) (s\<lparr>currentBookPath := Some (base @ ''.'' @ ext)\<rparr>)"
    unfolding loadBook_def ext by (simp add: Let_def)
  have other: "toLowerCase ext \<noteq> ''pdf'' \<and> toLowerCase ext \<noteq> ''epub'' \<longrightarrow>
            loadBook env (base @ ''.'' @ ext) s =
              s\<lparr>currentBookPath := Some (base @ ''.'' @ ext),
                alerts := alerts s @
                  [FailedToLoadBook ''Unsupported file format. Only EPUB and PDF files are supported.'']\<rparr>"
    unfolding loadBook_def ext by (simp add: Let_def)
  have add: "\<forall>e. library (fst (addBookToLibrary_body env (Some (base @ ''.'' @ ext)) titleArg authorArg None s))
               = e # library s
            \<longrightarrow> fileType e = (if toLowerCase ext = ''pdf'' then ''pdf'' else ''epub'')"
    using body_new_fileType [of env "Some (base @ ''.'' @ ext)" titleArg authorArg s _ "base @ ''.'' @ ext"] ext
    by (simp add: orElseOpt_def truthy_def)
  have add_dialog: "\<forall>e. library (fst (addBookToLibrary_body (env\<lparr>dialogChoice := Some (base @ ''.'' @ ext)\<rparr>)
                             None titleArg authorArg None s))
               = e # library s
            \<longrightarrow> fileType e = (if toLowerCase ext = ''pdf'' then ''pdf'' else ''epub'')"
    using body_new_fileType [of "env\<lparr>dialogChoice := Some (base @ ''.'' @ ext)\<rparr>" None
            titleArg authorArg s _ "base @ ''.'' @ ext"] ext
    by (simp add: orElseOpt_def truthy_def)
  from pdf epub other add add_dialog show ?thesis by (intro conjI)
qed

theorem loadBook_selects_engine_by_extension_witness:
  "loadBook
      \<lparr>now = 1700000000000, isoNow = ''2025-01-02T00:00:00.000Z'', dialogChoice = None,
       pdfSupport = True, pdfNumPages = Some 10, pdfInfoTitle = None, pdfInfoAuthor = None,
       epubBook = Some \<lparr>loadedMetadata = Some \<lparr>metaIdentifier = Some ''isbn123'',
                    metaTitle = Some ''Foo'', creator = Some ''Bar''\<rparr>\<rparr>,
       epubCover = None, storedHighlights = Some [], cfiResolves = True, errorMessage = []\<rparr>
      (''/books/a'' @ ''.'' @ ''EPUB'') initialRenderer
   = loadEPUB
      \<lparr>now = 1700000000000, isoNow = ''2025-01-02T00:00:00.000Z'', dialogChoice = None,
       pdfSupport = True, pdfNumPages = Some 10, pdfInfoTitle = None, pdfInfoAuthor = None,
       epubBook = Some \<lparr>loadedMetadata = Some \<lparr>metaIdentifier = Some ''isbn123'',
                    metaTitle = Some ''Foo'', creator = Some ''Bar''\<rparr>\<rparr>,
       epubCover = None, storedHighlights = Some [], cfiResolves = True, errorMessage = []\<rparr>
      (''/books/a'' @ ''.'' @ ''EPUB'')
      (initialRenderer\<lparr>currentBookPath := Some (''/books/a'' @ ''.'' @ ''EPUB'')\<rparr>)
   \<and> loadBook
      \<lparr>now = 1700000000000, isoNow = ''2025-01-02T00:00:00.000Z'', dialogChoice = None,
       pdfSupport = True, pdfNumPages = Some 10, pdfInfoTitle = None, pdfInfoAuthor = None,
       epubBook = Some \<lparr>loadedMetadata = Some \<lparr>metaIdentifier = Some ''isbn123'',
                    metaTitle = Some ''Foo'', creator = Some ''Bar''\<rparr>\<rparr>,
       epubCover = None, storedHighlights = Some [], cfiResolves = True, errorMessage = []\<rparr>
      (''/books/notes'' @ ''.'' @ ''txt'') initialRenderer
   = initialRenderer\<lparr>currentBookPath := Some (''/books/notes'' @ ''.'' @ ''txt''),
        alerts := alerts initialRenderer @
          [FailedToLoadBook ''Unsupported file format. Only EPUB and PDF files are supported.'']\<rparr>"
proof -
  let ?env = "\<lparr>now = 1700000000000, isoNow = ''2025-01-02T00:00:00.000Z'', dialogChoice = None,
       pdfSupport = True, pdfNumPages = Some 10, pdfInfoTitle = None, pdfInfoAuthor = None,
       epubBook = Some \<lparr>loadedMetadata = Some \<lparr>metaIdentifier = Some ''isbn123'',
                    metaTitle = Some ''Foo'', creator = Some ''Bar''\<rparr>\<rparr>,
       epubCover = None, storedHighlights = Some [], cfiResolves = True, errorMessage = []\<rparr>"
  have d1: "CHR ''.'' \<notin> set ''EPUB''" by simp
  have d2: "CHR ''.'' \<notin> set ''txt''" by simp
  have l1: "toLowerCase ''EPUB'' = ''epub''" by (simp add: toLowerCase_def toLowerChar_def)
  have l2: "toLowerCase ''txt'' \<noteq> ''pdf'' \<and> toLowerCase ''txt'' \<noteq> ''epub''"
    by (simp add: toLowerCase_def toLowerChar_def)
  from loadBook_selects_engine_by_extension [OF d1, of ?env "''/books/a''" initialRenderer] l1
  have a: "loadBook ?env (''/books/a'' @ ''.'' @ ''EPUB'') initialRenderer
            = loadEPUB ?env (''/books/a'' @ ''.'' @ ''EPUB'')
                (initialRenderer\<lparr>currentBookPath := Some (''/books/a'' @ ''.'' @ ''EPUB'')\<rparr>)"
    by blast
  from loadBook_selects_engine_by_extension [OF d2, of ?env "''/books/notes''" initialRenderer] l2
  have b: "loadBook ?env (''/books/notes'' @ ''.'' @ ''txt'') initialRenderer
            = initialRenderer\<lparr>currentBookPath := Some (''/books/notes'' @ ''.'' @ ''txt''),
                alerts := alerts initialRenderer @
                  [FailedToLoadBook ''Unsupported file format. Only EPUB and PDF files are supported.'']\<rparr>"
    by blast
  from a b show ?thesis by (rule conjI)
qed

text \<open>The claim as stated fails: opening \<open>/books/notes.txt\<close> is rejected by
  \<open>loadBook\<close> itself; no book is opened, although the EPUB engine, had it been tried, would
  have opened the file.\<close>

theorem loadBook_unknown_extension_counterexample:
  "alerts (loadBook
      \<lparr>now = 1700000000000, isoNow = ''2025-01-02T00:00:00.000Z'', dialogChoice = None,
       pdfSupport = True, pdfNumPages = Some 10, pdfInfoTitle = None, pdfInfoAuthor = None,
       epubBook = Some \<lparr>loadedMetadata = Some \<lparr>metaIdentifier = Some ''isbn123'',
                    metaTitle = Some ''Foo'', creator = Some ''Bar''\<rparr>\<rparr>,
       epubCover = None, storedHighlights = Some [], cfiResolves = True, errorMessage = []\<rparr>
      ''/books/notes.txt'' initialRenderer)
     = [FailedToLoadBook ''Unsupported file format. Only EPUB and PDF files are supported.'']
   \<and> book (loadBook
      \<lparr>now = 1700000000000, isoNow = ''2025-01-02T00:00:00.000Z'', dialogChoice = None,
       pdfSupport = True, pdfNumPages = Some 10, pdfInfoTitle = None, pdfInfoAuthor = None,
       epubBook = Some \<lparr>loadedMetadata = Some \<lparr>metaIdentifier = Some ''isbn123'',
                    metaTitle = Some ''Foo'', creator = Some ''Bar''\<rparr>\<rparr>,
       epubCover = None, storedHighlights = Some [], cfiResolves = True, errorMessage = []\<rparr>
      ''/books/notes.txt'' initialRenderer) = None
   \<and> currentFileType (loadBook
      \<lparr>now = 1700000000000, isoNow = ''2025-01-02T00:00:00.000Z'', dialogChoice = None,
       pdfSupport = True, pdfNumPages = Some 10, pdfInfoTitle = None, pdfInfoAuthor = None,
       epubBook = Some \<lparr>loadedMetadata = Some \<lparr>metaIdentifier = Some ''isbn123'',
                    metaTitle = Some ''Foo'', creator = Some ''Bar''\<rparr>\<rparr>,
       epubCover = None, storedHighlights = Some [], cfiResolves = True, errorMessage = []\<rparr>
      ''/books/notes.txt'' initialRenderer) = None
   \<and> book (loadEPUB
      \<lparr>now = 1700000000000, isoNow = ''2025-01-02T00:00:00.000Z'', dialogChoice = None,
       pdfSupport = True, pdfNumPages = Some 10, pdfInfoTitle = None, pdfInfoAuthor = None,
       epubBook = Some \<lparr>loadedMetadata = Some \<lparr>metaIdentifier = Some ''isbn123'',
                    metaTitle = Some ''Foo'', creator = Some ''Bar''\<rparr>\<rparr>,
       epubCover = None, storedHighlights = Some [], cfiResolves = True, errorMessage = []\<rparr>
      ''/books/notes.txt'' (initialRenderer\<lparr>currentBookPath := Some ''/books/notes.txt''\<rparr>))
     = Some \<lparr>loadedMetadata = Some \<lparr>metaIdentifier = Some ''isbn123'',
                    metaTitle = Some ''Foo'', creator = Some ''Bar''\<rparr>\<rparr>"
proof -
  have ext: "extension ''/books/notes.txt'' = ''txt''"
    by (simp add: extension_def pop_def orElse_def toLowerCase_def toLowerChar_def)
  show ?thesis
    by (simp add: loadBook_def ext Let_def initialRenderer_def loadEPUB_def
        generateBookIdentifier_def loadHighlights_def saveSettings_def truthy_def)
qed

section \<open>Debounced saving of the library\<close>

lemma timersFire_currentBookPath: "currentBookPath (timersFire t s) = currentBookPath s"
  by (simp add: timersFire_def saveLibrary_def split: option.splits)

lemma timersFire_library: "library (timersFire t s) = library s"
  by (simp add: timersFire_def saveLibrary_def split: option.splits)

lemma timersFire_not_due: "librarySaveTimeout s = Some d \<Longrightarrow> t < d \<Longrightarrow> timersFire t s = s"
  by (simp add: timersFire_def)

lemma timersFire_due:
  "librarySaveTimeout s = Some d \<Longrightarrow> d \<le> t \<Longrightarrow>
     timersFire t s = saveLibrary (s\<lparr>librarySaveTimeout := None\<rparr>)"
  by (simp add: timersFire_def)

lemma timersFire_none: "librarySaveTimeout s = None \<Longrightarrow> timersFire t s = s"
  by (simp add: timersFire_def)

lemma updateFirst_position_paths:
  "map path (updateFirst q (\<lambda>b. b\<lparr>lastPosition := x, progress := y\<rparr>) xs) = map path xs"
  by (induction xs) auto

lemma onLocationChange_currentBookPath:
  "currentBookPath (onLocationChange t loc s) = currentBookPath s"
  by (simp add: onLocationChange_def saveSettings_def Let_def split: option.splits)

lemma onLocationChange_paths:
  "map path (library (onLocationChange t loc s)) = map path (library s)"
  by (simp add: onLocationChange_def saveSettings_def Let_def updateFirst_position_paths
      split: option.splits)

lemma onLocationChange_librarySaves:
  "librarySaves (onLocationChange t loc s) = librarySaves s"
  by (simp add: onLocationChange_def saveSettings_def Let_def split: option.splits)

lemma onLocationChange_sets_timer:
  assumes "currentBookPath s = Some p" and "p \<noteq> []" and "p \<in> path ` set (library s)"
    and "carriesStart loc"
  shows "librarySaveTimeout (onLocationChange t loc s) = Some (t + 2000)"
proof -
  obtain b where "find (\<lambda>b. path b = p) (library s) = Some b"
    using find_path_Some [OF assms(3)] by blast
  moreover obtain l st where "loc = Some l" and "start l = Some st"
    using assms(4) by (auto simp: carriesStart_def split: option.splits)
  ultimately show ?thesis
    using assms(1,2) by (simp add: onLocationChange_def saveSettings_def Let_def)
qed

lemma onLocationChange_entry:
  assumes "currentBookPath s = Some p" and "p \<noteq> []"
    and "find (\<lambda>b. path b = p) (library s) = Some b" and "start l = Some st"
  shows "find (\<lambda>b. path b = p) (library (onLocationChange t (Some l) s))
           = Some (b\<lparr>lastPosition := Some (cfi st),
                     progress := Math_round (doubleTimes (case percentage st of None \<Rightarrow> 0 | Some x \<Rightarrow> x) 100)\<rparr>)"
proof -
  let ?f = "\<lambda>b. b\<lparr>lastPosition := Some (cfi st),
                     progress := Math_round (doubleTimes (case percentage st of None \<Rightarrow> 0 | Some x \<Rightarrow> x) 100)\<rparr>"
  have pb: "path b = p"
    using assms(3) by (auto dest: find_Some_iff [THEN iffD1])
  have "library (onLocationChange t (Some l) s) = updateFirst (\<lambda>b. path b = p) ?f (library s)"
    using assms by (simp add: onLocationChange_def saveSettings_def)
  moreover have "find (\<lambda>b. path b = p) (updateFirst (\<lambda>b. path b = p) ?f (library s)) = Some (?f b)"
    using assms(3) pb by (intro find_updateFirst) simp_all
  ultimately show ?thesis by simp
qed

lemma runEvents_append: "runEvents s (xs @ ys) = runEvents (runEvents s xs) ys"
  by (induction xs arbitrary: s) auto

lemma runEvents_currentBookPath: "currentBookPath (runEvents s es) = currentBookPath s"
  by (induction es arbitrary: s)
     (auto simp: onLocationChange_currentBookPath timersFire_currentBookPath)

lemma runEvents_paths: "map path (library (runEvents s es)) = map path (library s)"
  by (induction es arbitrary: s) (auto simp: onLocationChange_paths timersFire_library)

lemma paths_set: "map path xs = map path ys \<Longrightarrow> path ` set xs = path ` set ys"
  by (metis set_map)

lemma burst_tail:
  assumes "quietBurst ((t0, l0) # es)" and "librarySaveTimeout s = Some (t0 + 2000)"
    and "currentBookPath s = Some p" and "p \<noteq> []" and "p \<in> path ` set (library s)"
  shows "librarySaves (runEvents s es) = librarySaves s
     \<and> librarySaveTimeout (runEvents s es) = Some (fst (last ((t0, l0) # es)) + 2000)"
  using assms
proof (induction es arbitrary: s t0 l0)
  case Nil
  then show ?case by simp
next
  case (Cons e es)
  obtain t l where e: "e = (t, l)" by (cases e)
  from Cons.prems(1) e have cs: "carriesStart l0" and le: "t0 \<le> t" and lt: "t < t0 + 2000"
    and rest: "quietBurst ((t, l) # es)"
    by simp_all
  have cl: "carriesStart l" using rest by (cases es) auto
  have idle: "timersFire t s = s"
    using Cons.prems(2) lt by (rule timersFire_not_due)
  let ?s1 = "onLocationChange t l s"
  have timer: "librarySaveTimeout ?s1 = Some (t + 2000)"
    by (rule onLocationChange_sets_timer [OF Cons.prems(3,4,5) cl])
  have cur: "currentBookPath ?s1 = Some p"
    using Cons.prems(3) by (simp add: onLocationChange_currentBookPath)
  have mem: "p \<in> path ` set (library ?s1)"
    using Cons.prems(5) paths_set [OF onLocationChange_paths [of t l s]] by simp
  from Cons.IH [OF rest timer cur Cons.prems(4) mem]
  have "librarySaves (runEvents ?s1 es) = librarySaves ?s1"
    and "librarySaveTimeout (runEvents ?s1 es) = Some (fst (last ((t, l) # es)) + 2000)"
    by simp_all
  then show ?case
    using e idle by (simp add: onLocationChange_librarySaves)
qed

text \<open>
  C5. For a burst of location changes of the current book, the book being in the
  library and each event arriving less than 2000 ms after the one before: no save of the
  library is made during the burst; after the last event the save is due 2000 ms later
  and is not made earlier; once that time is reached exactly one save is made, its
  payload is the library as the last event left it (the entry of the book carrying the
  last locator and progress), and no further save follows. (A timer still pending from
  before the burst either fires before the first event or is cancelled by it.)
\<close>

theorem debounced_save_coalesces_burst:
  assumes "currentBookPath s = Some p" and "p \<noteq> []" and "p \<in> path ` set (library s)"
    and "quietBurst (evs @ [(lastT, Some lastLoc)])" and "start lastLoc = Some lastStart"
  shows "librarySaves (runEvents s (evs @ [(lastT, Some lastLoc)]))
           = librarySaves (timersFire (fst (hd (evs @ [(lastT, Some lastLoc)]))) s)
     \<and> librarySaveTimeout (runEvents s (evs @ [(lastT, Some lastLoc)])) = Some (lastT + 2000)
     \<and> (\<forall>T. T < lastT + 2000 \<longrightarrow>
           timersFire T (runEvents s (evs @ [(lastT, Some lastLoc)])) = runEvents s (evs @ [(lastT, Some lastLoc)]))
     \<and> (\<forall>T. lastT + 2000 \<le> T \<longrightarrow>
           librarySaves (timersFire T (runEvents s (evs @ [(lastT, Some lastLoc)])))
             = librarySaves (timersFire (fst (hd (evs @ [(lastT, Some lastLoc)]))) s)
                 @ [library (runEvents s (evs @ [(lastT, Some lastLoc)]))]
           \<and> (\<forall>T'. timersFire T' (timersFire T (runEvents s (evs @ [(lastT, Some lastLoc)])))
                    = timersFire T (runEvents s (evs @ [(lastT, Some lastLoc)]))))
     \<and> (\<exists>e. find (\<lambda>b. path b = p) (library (runEvents s (evs @ [(lastT, Some lastLoc)]))) = Some e
            \<and> lastPosition e = Some (cfi lastStart)
            \<and> progress e = Math_round
                  (doubleTimes (case percentage lastStart of None \<Rightarrow> 0 | Some x \<Rightarrow> x) 100))"
proof -
  let ?all = "evs @ [(lastT, Some lastLoc)]"
  let ?s' = "runEvents s ?all"
  obtain t1 l1 rest where all: "?all = (t1, l1) # rest"
    by (cases ?all) auto
  have c1: "carriesStart l1"
    using assms(4) all by (cases rest) auto
  let ?s0 = "timersFire t1 s"
  let ?s1 = "onLocationChange t1 l1 ?s0"
  have cur0: "currentBookPath ?s0 = Some p"
    using assms(1) by (simp add: timersFire_currentBookPath)
  have mem0: "p \<in> path ` set (library ?s0)"
    using assms(3) by (simp add: timersFire_library)
  have timer1: "librarySaveTimeout ?s1 = Some (t1 + 2000)"
    by (rule onLocationChange_sets_timer [OF cur0 assms(2) mem0 c1])
  have cur1: "currentBookPath ?s1 = Some p"
    using cur0 by (simp add: onLocationChange_currentBookPath)
  have mem1: "p \<in> path ` set (library ?s1)"
    using mem0 paths_set [OF onLocationChange_paths [of t1 l1 ?s0]] by simp
  have qb: "quietBurst ((t1, l1) # rest)" using assms(4) all by simp
  have run: "?s' = runEvents ?s1 rest" using all by simp
  have lastt: "fst (last ((t1, l1) # rest)) = lastT"
    using all by (metis fst_conv last_snoc)
  from burst_tail [OF qb timer1 cur1 assms(2) mem1]
  have saves: "librarySaves ?s' = librarySaves ?s0"
    and timer: "librarySaveTimeout ?s' = Some (lastT + 2000)"
    using run lastt by (simp_all add: onLocationChange_librarySaves)
  have first: "fst (hd ?all) = t1" using all by simp
  have early: "\<forall>T. T < lastT + 2000 \<longrightarrow> timersFire T ?s' = ?s'"
    using timer by (simp add: timersFire_not_due)
  have late: "\<forall>T. lastT + 2000 \<le> T \<longrightarrow>
           librarySaves (timersFire T ?s') = librarySaves ?s0 @ [library ?s']
           \<and> (\<forall>T'. timersFire T' (timersFire T ?s') = timersFire T ?s')"
  proof (intro allI impI)
    fix T assume due: "lastT + 2000 \<le> T"
    have fired: "timersFire T ?s' = saveLibrary (?s'\<lparr>librarySaveTimeout := None\<rparr>)"
      using timer due by (rule timersFire_due)
    have one: "librarySaves (timersFire T ?s') = librarySaves ?s0 @ [library ?s']"
      using fired saves by (simp add: saveLibrary_def)
    have "librarySaveTimeout (timersFire T ?s') = None"
      using fired by (simp add: saveLibrary_def)
    then have "\<forall>T'. timersFire T' (timersFire T ?s') = timersFire T ?s'"
      by (simp add: timersFire_none)
    with one show "librarySaves (timersFire T ?s') = librarySaves ?s0 @ [library ?s']
           \<and> (\<forall>T'. timersFire T' (timersFire T ?s') = timersFire T ?s')"
      by simp
  qed
  let ?sx = "timersFire lastT (runEvents s evs)"
  have last_step: "?s' = onLocationChange lastT (Some lastLoc) ?sx"
    by (simp add: runEvents_append)
  have curx: "currentBookPath ?sx = Some p"
    using assms(1) by (simp add: timersFire_currentBookPath runEvents_currentBookPath)
  have "p \<in> path ` set (library ?sx)"
    using assms(3) paths_set [OF runEvents_paths [of s evs]] by (simp add: timersFire_library)
  then obtain b where b: "find (\<lambda>b. path b = p) (library ?sx) = Some b"
    using find_path_Some by blast
  have entry: "\<exists>e. find (\<lambda>b. path b = p) (library ?s') = Some e
            \<and> lastPosition e = Some (cfi lastStart)
            \<and> progress e = Math_round
                  (doubleTimes (case percentage lastStart of None \<Rightarrow> 0 | Some x \<Rightarrow> x) 100)"
    using onLocationChange_entry [OF curx assms(2) b assms(5), of lastT] last_step by simp
  show ?thesis
    using saves timer early late entry first by simp
qed

theorem debounced_save_coalesces_burst_witness:
  "map (map progress) (librarySaves (timersFire 6000 (runEvents
      (initialRenderer\<lparr>library :=
          [\<lparr>entryId = ''isbn123'', path = ''/books/a.epub'', title = ''Foo'', author = ''Bar'',
            fileType = ''epub'', coverPath = None, addedDate = ''2025-01-01T00:00:00.000Z'',
            lastOpened = None, lastPosition = None, progress = 0\<rparr>],
         currentBookPath := Some ''/books/a.epub''\<rparr>)
      ([(1000, Some \<lparr>start = Some \<lparr>cfi = ''epubcfi(/6/4!/4/2)'', percentage = Some (10 / 100)\<rparr>\<rparr>),
        (2500, Some \<lparr>start = Some \<lparr>cfi = ''epubcfi(/6/6!/4/2)'', percentage = Some (20 / 100)\<rparr>\<rparr>)]
       @ [(4000, Some \<lparr>start = Some \<lparr>cfi = ''epubcfi(/6/8!/4/2)'', percentage = Some (42 / 100)\<rparr>\<rparr>)]))))
   = [[42]]
   \<and> librarySaves (timersFire 5999 (runEvents
      (initialRenderer\<lparr>library :=
          [\<lparr>entryId = ''isbn123'', path = ''/books/a.epub'', title = ''Foo'', author = ''Bar'',
            fileType = ''epub'', coverPath = None, addedDate = ''2025-01-01T00:00:00.000Z'',
            lastOpened = None, lastPosition = None, progress = 0\<rparr>],
         currentBookPath := Some ''/books/a.epub''\<rparr>)
      ([(1000, Some \<lparr>start = Some \<lparr>cfi = ''epubcfi(/6/4!/4/2)'', percentage = Some (10 / 100)\<rparr>\<rparr>),
        (2500, Some \<lparr>start = Some \<lparr>cfi = ''epubcfi(/6/6!/4/2)'', percentage = Some (20 / 100)\<rparr>\<rparr>)]
       @ [(4000, Some \<lparr>start = Some \<lparr>cfi = ''epubcfi(/6/8!/4/2)'', percentage = Some (42 / 100)\<rparr>\<rparr>)])))
   = []"
proof -
  let ?s = "initialRenderer\<lparr>library :=
          [\<lparr>entryId = ''isbn123'', path = ''/books/a.epub'', title = ''Foo'', author = ''Bar'',
            fileType = ''epub'', coverPath = None, addedDate = ''2025-01-01T00:00:00.000Z'',
            lastOpened = None, lastPosition = None, progress = 0\<rparr>],
         currentBookPath := Some ''/books/a.epub''\<rparr>"
  let ?evs = "[(1000, Some \<lparr>start = Some \<lparr>cfi = ''epubcfi(/6/4!/4/2)'', percentage = Some (10 / 100)\<rparr>\<rparr>),
        (2500, Some \<lparr>start = Some \<lparr>cfi = ''epubcfi(/6/6!/4/2)'', percentage = Some (20 / 100)\<rparr>\<rparr>)]
        :: (nat \<times> location option) list"
  let ?st = "\<lparr>cfi = ''epubcfi(/6/8!/4/2)'', percentage = Some (42 / 100)\<rparr>"
  let ?l = "\<lparr>start = Some ?st\<rparr>"
  let ?s' = "runEvents ?s (?evs @ [(4000, Some ?l)])"
  have h1: "currentBookPath ?s = Some ''/books/a.epub''" by simp
  have h2: "''/books/a.epub'' \<noteq> []" by simp
  have h3: "''/books/a.epub'' \<in> path ` set (library ?s)" by simp
  have h4: "quietBurst (?evs @ [(4000, Some ?l)])" by (simp add: carriesStart_def)
  have h5: "start ?l = Some ?st" by simp
  note burst = debounced_save_coalesces_burst [OF h1 h2 h3 h4 h5]
  from burst have late: "\<forall>T. 4000 + 2000 \<le> T \<longrightarrow>
      librarySaves (timersFire T ?s')
        = librarySaves (timersFire (fst (hd (?evs @ [(4000, Some ?l)]))) ?s) @ [library ?s']"
    by blast
  from burst have early: "\<forall>T. T < 4000 + 2000 \<longrightarrow> timersFire T ?s' = ?s'"
    by blast
  from burst have quiet:
    "librarySaves ?s' = librarySaves (timersFire (fst (hd (?evs @ [(4000, Some ?l)]))) ?s)"
    by blast
  have before: "librarySaves (timersFire (fst (hd (?evs @ [(4000, Some ?l)]))) ?s) = []"
    by (simp add: timersFire_def initialRenderer_def)
  have td: "toDouble ((42 / 100) * 100)
              = of_int (roundHalfEven ((42 / 100) * 100 / 2 powi (5 - 52))) * 2 powi (5 - 52)"
    by (rule toDouble_eq) simp_all
  have "Math_round (doubleTimes (42 / 100) 100) = 42"
    unfolding doubleTimes_def td by (simp add: roundHalfEven_def Math_round_def)
  then have p42: "Math_round (doubleTimes (21 / 50) 100) = 42" by simp
  have final: "map progress (library ?s') = [42]"
    by (simp add: onLocationChange_def timersFire_def saveSettings_def p42
        initialRenderer_def)
  from late have "librarySaves (timersFire 6000 ?s')
        = librarySaves (timersFire (fst (hd (?evs @ [(4000, Some ?l)]))) ?s) @ [library ?s']"
    by simp
  then have a: "map (map progress) (librarySaves (timersFire 6000 ?s')) = [[42]]"
    using before final by simp
  from early have "timersFire 5999 ?s' = ?s'" by simp
  then have b: "librarySaves (timersFire 5999 ?s') = []"
    using quiet before by simp
  from a b show ?thesis by (rule conjI)
qed

end
